theory Spec2Isabelle
  imports Complex_Main "HOL-Library.Sublist"
begin

section \<open>Python strings\<close>

text \<open>
  A Python \<open>str\<close> is modelled as a \<open>string\<close>: a list of characters, each one of the code
  points 0..255 (Latin-1, the first 256 code points of Unicode). The predicates below are
  Python's own classification of these code points: \<open>str.isdigit\<close>, the classes
  \<open>\d\<close> and \<open>\w\<close> of the \<open>re\<close> module on \<open>str\<close> patterns, \<open>str.isspace\<close>
  (the characters \<open>str.strip\<close> removes) and \<open>str.lower\<close>.
\<close>

definition isdigit :: "char \<Rightarrow> bool" where
  "isdigit c = (let n = (of_char c :: nat)
                in (48 \<le> n \<and> n \<le> 57) \<or> n = 178 \<or> n = 179 \<or> n = 185)"

definition re_digit :: "char \<Rightarrow> bool" where
  "re_digit c = (let n = (of_char c :: nat) in 48 \<le> n \<and> n \<le> 57)"

definition re_word :: "char \<Rightarrow> bool" where
  "re_word c = (let n = (of_char c :: nat)
                in (48 \<le> n \<and> n \<le> 57) \<or> (65 \<le> n \<and> n \<le> 90) \<or> n = 95
                   \<or> (97 \<le> n \<and> n \<le> 122) \<or> n = 170 \<or> n = 178 \<or> n = 179
                   \<or> n = 181 \<or> n = 185 \<or> n = 186 \<or> (188 \<le> n \<and> n \<le> 190)
                   \<or> (192 \<le> n \<and> n \<le> 214) \<or> (216 \<le> n \<and> n \<le> 246)
                   \<or> (248 \<le> n \<and> n \<le> 255))"

definition isspace :: "char \<Rightarrow> bool" where
  "isspace c = (let n = (of_char c :: nat)
                in (9 \<le> n \<and> n \<le> 13) \<or> (28 \<le> n \<and> n \<le> 32) \<or> n = 133 \<or> n = 160)"

definition strip :: "string \<Rightarrow> string" where
  "strip s = rev (dropWhile isspace (rev (dropWhile isspace s)))"

definition lower_char :: "char \<Rightarrow> char" where
  "lower_char c = (let n = (of_char c :: nat)
                   in if (65 \<le> n \<and> n \<le> 90) \<or> (192 \<le> n \<and> n \<le> 214)
                         \<or> (216 \<le> n \<and> n \<le> 222)
                      then char_of (n + 32) else c)"

definition lower :: "string \<Rightarrow> string" where
  "lower s = map lower_char s"

text \<open>\<open>s.startswith(t)\<close> and the substring test \<open>t in s\<close>.\<close>

definition startswith :: "string \<Rightarrow> string \<Rightarrow> bool" where
  "startswith s t = prefix t s"

fun contains :: "string \<Rightarrow> string \<Rightarrow> bool" where
  "contains [] t = (t = [])"
| "contains (c # s) t = (prefix t (c # s) \<or> contains s t)"

text \<open>
  \<open>re.findall(r"\b(\d{2})\b", text)\<close>: the scan goes from left to right; at each position
  it tries two \<open>\d\<close> characters between two word boundaries, a match consumes both
  characters, a failure moves one character on. The flag says whether the character before
  the current position is a word character (\<open>False\<close> at the start of the text).
\<close>

fun findall_two_digits :: "bool \<Rightarrow> string \<Rightarrow> string list" where
  "findall_two_digits prev_word (a # b # rest) =
     (if \<not> prev_word \<and> re_digit a \<and> re_digit b
         \<and> (case rest of [] \<Rightarrow> True | c # _ \<Rightarrow> \<not> re_word c)
      then [a, b] # findall_two_digits True rest
      else findall_two_digits (re_word a) (b # rest))"
| "findall_two_digits prev_word [a] = []"
| "findall_two_digits prev_word [] = []"

text \<open>\<open>str(n)\<close> for an integer.\<close>

fun str_nat :: "nat \<Rightarrow> string" where
  "str_nat n = (if n < 10 then [char_of (48 + n)]
                else str_nat (n div 10) @ [char_of (48 + n mod 10)])"

definition str_int :: "int \<Rightarrow> string" where
  "str_int i = (if i < 0 then CHR ''-'' # str_nat (nat (- i)) else str_nat (nat i))"

text \<open>\<open>x or default\<close> on an optional string: \<open>None\<close> and the empty string are falsy.\<close>

fun or_else :: "string option \<Rightarrow> string \<Rightarrow> string" where
  "or_else None d = d"
| "or_else (Some s) d = (if s = [] then d else s)"

section \<open>The browser page as the driver shows it\<close>

text \<open>
  The Playwright driver is outside the repository. A call of the driver either returns a
  value or raises an exception; \<open>Inl e\<close> is the exception with text \<open>e\<close>.
\<close>

type_synonym 'a probe = "string + 'a"

text \<open>
  What the driver answers on the page that is shown: \<open>page.url\<close>,
  \<open>page.locator(sel).count()\<close>, \<open>page.locator(sel).first.text_content()\<close>
  (also \<open>page.locator("body").text_content()\<close>),
  \<open>page.locator(sel).first.get_attribute(name)\<close>,
  \<open>page.locator(sel).first.inner_html()\<close>, \<open>page.content()\<close> and \<open>page.title()\<close>.
\<close>

record page =
  url :: string
  count :: "string \<Rightarrow> nat probe"
  text_content :: "string \<Rightarrow> string option probe"
  get_attribute :: "string \<Rightarrow> string \<Rightarrow> string option probe"
  inner_html :: "string \<Rightarrow> string probe"
  content :: "string probe"
  title :: "string probe"

section \<open>login_fetcher.py: extraction of the mobile verification code\<close>

definition code_selectors :: "string list" where
  "code_selectors =
     [''.js-verification-code'',
      ''[data-target='' @ [CHR 0x27] @ ''device-verification.number'' @ [CHR 0x27] @ '']'',
      ''.verification-code'',
      ''.auth-form-body strong'',
      ''.Box-body strong'',
      ''div.text-center strong'',
      ''.flash strong'']"

text \<open>
  The loop \<open>for selector in code_selectors\<close>: \<open>Inr (Some digits)\<close> is the \<open>return digits\<close>
  inside the loop, \<open>Inr None\<close> is the loop running to its end, \<open>Inl e\<close> an exception of a
  driver call.
\<close>

fun scan_code_selectors :: "page \<Rightarrow> string list \<Rightarrow> string option probe" where
  "scan_code_selectors p [] = Inr None"
| "scan_code_selectors p (selector # rest) =
     (case count p selector of
        Inl e \<Rightarrow> Inl e
      | Inr n \<Rightarrow>
          if n > 0 then
            (case text_content p selector of
               Inl e \<Rightarrow> Inl e
             | Inr None \<Rightarrow> scan_code_selectors p rest
             | Inr (Some text) \<Rightarrow>
                 if text \<noteq> [] then
                   (let digits = filter isdigit text
                    in if length digits \<ge> 2 then Inr (Some digits)
                       else scan_code_selectors p rest)
                 else scan_code_selectors p rest)
          else scan_code_selectors p rest)"

definition extract_mobile_verification_code :: "page \<Rightarrow> string option" where
  "extract_mobile_verification_code p =
     (case scan_code_selectors p code_selectors of
        Inl e \<Rightarrow> None
      | Inr (Some digits) \<Rightarrow> Some digits
      | Inr None \<Rightarrow>
          (case text_content p ''body'' of
             Inl e \<Rightarrow> None
           | Inr t \<Rightarrow>
               (let body_text = (case t of None \<Rightarrow> [] | Some s \<Rightarrow> s);
                    matches = findall_two_digits False body_text
                in case matches of m # _ \<Rightarrow> Some m | [] \<Rightarrow> None)))"

section \<open>login_fetcher.py: page states and the fetcher\<close>

datatype page_state =
    LOGIN_FORM | TWOFA_APP | TWOFA_SMS | TWOFA_MOBILE | TWOFA_SECURITY_KEY
  | LOGGED_IN | LOGIN_ERROR | CAPTCHA | UNKNOWN

record page_state_result =
  state :: page_state
  error_message :: "string option"
  twofa_method :: "string option"
  verification_code :: "string option"

text \<open>\<open>PageStateResult(state=s)\<close>: the other fields default to \<open>None\<close>.\<close>

definition PageStateResult :: "page_state \<Rightarrow> page_state_result" where
  "PageStateResult s =
     \<lparr>state = s, error_message = None, twofa_method = None, verification_code = None\<rparr>"

text \<open>
  What the code does to the browser and to the files of the authentication store. Every
  call is appended to the trace of the world when it is made, whether it returns or raises.
\<close>

datatype action =
    Goto string
  | Screenshot string
  | WaitForSelector string nat
  | Fill string string
  | Click string
  | WaitForLoadState string nat
  | ClosePage
  | CloseContext
  | CloseBrowser
  | StopPlaywright
  | SaveUsername string string
  | MkdirAuthStateDir
  | StorageState string

text \<open>
  The world outside the program. \<open>site\<close> and \<open>fails\<close> are the remote site and the
  driver: the page that is shown, and whether a call raises (and with what text), both
  after the calls made so far and at the time of the event loop's clock. The program
  changes \<open>trace\<close> (by its calls) and \<open>now\<close> (by \<open>asyncio.sleep\<close>); \<open>now\<close> is in seconds.
  The calls that only read the page are answered from one snapshot of it.
\<close>

record world =
  site :: "action list \<Rightarrow> rat \<Rightarrow> page"
  fails :: "action list \<Rightarrow> rat \<Rightarrow> action \<Rightarrow> string option"
  trace :: "action list"
  now :: rat

definition cur_page :: "world \<Rightarrow> page" where
  "cur_page w = site w (trace w) (now w)"

definition perform :: "action \<Rightarrow> world \<Rightarrow> unit probe \<times> world" where
  "perform a w =
     (case fails w (trace w) (now w) a of
        Some e \<Rightarrow> (Inl e, w\<lparr>trace := trace w @ [a]\<rparr>)
      | None \<Rightarrow> (Inr (), w\<lparr>trace := trace w @ [a]\<rparr>))"

text \<open>A sequence of awaited calls: the first one that raises ends it.\<close>

fun perform_all :: "action list \<Rightarrow> world \<Rightarrow> unit probe \<times> world" where
  "perform_all [] w = (Inr (), w)"
| "perform_all (a # as) w =
     (case perform a w of
        (Inl e, w') \<Rightarrow> (Inl e, w')
      | (Inr _, w') \<Rightarrow> perform_all as w')"

text \<open>\<open>await asyncio.sleep(d)\<close>: a delay that is not positive returns at once.\<close>

definition sleep :: "rat \<Rightarrow> world \<Rightarrow> world" where
  "sleep d w = w\<lparr>now := now w + max 0 d\<rparr>"

text \<open>
  The handles \<open>_playwright\<close>, \<open>_browser\<close>, \<open>_context\<close> and \<open>_page\<close> of a
  \<open>LoginFetcher\<close>, each \<open>None\<close> or attached.
\<close>

datatype handle = Handle

record fetcher =
  f_playwright :: "handle option"
  f_browser :: "handle option"
  f_context :: "handle option"
  f_page :: "handle option"

text \<open>\<open>LoginFetcher()\<close>\<close>

definition LoginFetcher :: fetcher where
  "LoginFetcher =
     \<lparr>f_playwright = None, f_browser = None, f_context = None, f_page = None\<rparr>"

text \<open>
  \<open>LoginFetcher.close\<close>: each handle that is attached is closed, an exception of the
  driver is swallowed, and the handle is set to \<open>None\<close>.
\<close>

definition close_handle :: "handle option \<Rightarrow> action \<Rightarrow> world \<Rightarrow> world" where
  "close_handle h a w = (if h \<noteq> None then snd (perform a w) else w)"

definition close :: "fetcher \<Rightarrow> world \<Rightarrow> fetcher \<times> world" where
  "close f w =
     (let w1 = close_handle (f_page f) ClosePage w;
          w2 = close_handle (f_context f) CloseContext w1;
          w3 = close_handle (f_browser f) CloseBrowser w2;
          w4 = close_handle (f_playwright f) StopPlaywright w3
      in (\<lparr>f_playwright = None, f_browser = None, f_context = None, f_page = None\<rparr>, w4))"

text \<open>
  \<open>LoginFetcher.save_debug_screenshot\<close>: the path it returns is used by no caller, so
  only the effect on the world is kept; an exception of the driver is swallowed.
\<close>

definition save_debug_screenshot :: "fetcher \<Rightarrow> string \<Rightarrow> world \<Rightarrow> world" where
  "save_debug_screenshot f name w =
     (if f_page f = None then w else snd (perform (Screenshot name) w))"

section \<open>login_fetcher.py: detect_page_state\<close>

text \<open>
  The blocks of the \<open>try\<close> body, in the order of the source. A block that only reads the
  page gives \<open>Inr (Some r)\<close> when it returns the result \<open>r\<close>, \<open>Inr None\<close> when the code
  goes on to the next block, and \<open>Inl e\<close> when a call of the driver raises.
\<close>

definition orelse :: "'a option probe \<Rightarrow> 'a option probe \<Rightarrow> 'a option probe" where
  "orelse x y = (case x of Inl e \<Rightarrow> Inl e | Inr (Some r) \<Rightarrow> Inr (Some r) | Inr None \<Rightarrow> y)"

text \<open>The loop \<open>for selector in ...: if count > 0: ...\<close> up to the first selector present.\<close>

fun first_present :: "page \<Rightarrow> string list \<Rightarrow> string option probe" where
  "first_present p [] = Inr None"
| "first_present p (selector # rest) =
     (case count p selector of
        Inl e \<Rightarrow> Inl e
      | Inr n \<Rightarrow> if n > 0 then Inr (Some selector) else first_present p rest)"

definition user_menu :: string where
  \<open>user_menu = ''button[aria-label="Open user navigation menu"]''\<close>

definition check_logged_in :: "page \<Rightarrow> page_state_result option probe" where
  "check_logged_in p =
     (case count p user_menu of
        Inl e \<Rightarrow> Inl e
      | Inr user_menu_count \<Rightarrow>
          if user_menu_count > 0 then Inr (Some (PageStateResult LOGGED_IN)) else Inr None)"

definition captcha_indicators :: "string list" where
  \<open>captcha_indicators =
     [''iframe[src*="captcha"]'', ''iframe[src*="recaptcha"]'',
      ''div[class*="captcha"]'', ''#captcha-container'']\<close>

definition captcha_message :: string where
  "captcha_message = ''CAPTCHA required. Use --headed-login flag to login manually.''"

definition check_captcha :: "page \<Rightarrow> page_state_result option probe" where
  "check_captcha p =
     (case first_present p captcha_indicators of
        Inl e \<Rightarrow> Inl e
      | Inr (Some selector) \<Rightarrow>
          Inr (Some ((PageStateResult CAPTCHA)\<lparr>error_message := Some captcha_message\<rparr>))
      | Inr None \<Rightarrow> Inr None)"

definition check_mobile_url :: "page \<Rightarrow> page_state_result option probe" where
  "check_mobile_url p =
     (if contains (url p) ''two-factor/mobile''
      then Inr (Some \<lparr>state = TWOFA_MOBILE, error_message = None,
                      twofa_method = Some ''mobile'',
                      verification_code = extract_mobile_verification_code p\<rparr>)
      else Inr None)"

definition mobile_indicators :: "string list" where
  "mobile_indicators =
     [''[data-target='' @ [CHR 0x27] @ ''sudo-credential-options.mobileOption''
        @ [CHR 0x27] @ '']'',
      ''button[data-action*='' @ [CHR 0x27] @ ''mobile'' @ [CHR 0x27] @ '']'',
      ''.js-mobile-credential-option'']"

definition check_mobile_elements :: "page \<Rightarrow> page_state_result option probe" where
  "check_mobile_elements p =
     (case first_present p mobile_indicators of
        Inl e \<Rightarrow> Inl e
      | Inr (Some selector) \<Rightarrow>
          Inr (Some ((PageStateResult TWOFA_MOBILE)\<lparr>twofa_method := Some ''mobile''\<rparr>))
      | Inr None \<Rightarrow> Inr None)"

definition security_key_message :: string where
  "security_key_message =
     ''Security key 2FA not supported. Please configure authenticator app in GitHub settings.''"

definition security_key_result :: page_state_result where
  "security_key_result =
     \<lparr>state = TWOFA_SECURITY_KEY, error_message = Some security_key_message,
      twofa_method = Some ''security_key'', verification_code = None\<rparr>"

definition security_key_btn :: string where
  \<open>security_key_btn = ''button[data-action="click:webauthn-get#start"]''\<close>

definition check_security_key_button :: "page \<Rightarrow> page_state_result option probe" where
  "check_security_key_button p =
     (case count p security_key_btn of
        Inl e \<Rightarrow> Inl e
      | Inr security_key_count \<Rightarrow>
          if security_key_count > 0 then Inr (Some security_key_result) else Inr None)"

definition otp_input :: string where
  \<open>otp_input = ''input[name="app_otp"], input[id="app_totp"]''\<close>

definition twofa_app_result :: page_state_result where
  "twofa_app_result = (PageStateResult TWOFA_APP)\<lparr>twofa_method := Some ''app''\<rparr>"

definition check_authenticator_app :: "page \<Rightarrow> page_state_result option probe" where
  "check_authenticator_app p =
     (case count p otp_input of
        Inl e \<Rightarrow> Inl e
      | Inr otp_input_count \<Rightarrow>
          if otp_input_count > 0 then Inr (Some twofa_app_result) else Inr None)"

definition sms_input :: string where
  \<open>sms_input = ''input[name="sms_otp"]''\<close>

definition otp_inputs :: string where
  \<open>otp_inputs = ''input[type="text"][autocomplete="one-time-code"]''\<close>

definition check_2fa_page_content :: "page \<Rightarrow> page_state_result option probe" where
  "check_2fa_page_content p =
     (case content p of
        Inl e \<Rightarrow> Inl e
      | Inr c \<Rightarrow>
          (let page_text = lower c;
               has_2fa_text = (contains page_text ''two-factor''
                               \<or> contains page_text ''authentication code'')
           in if has_2fa_text then
                (case count p sms_input of
                   Inl e \<Rightarrow> Inl e
                 | Inr sms_count \<Rightarrow>
                     if sms_count > 0
                     then Inr (Some ((PageStateResult TWOFA_SMS)\<lparr>twofa_method := Some ''sms''\<rparr>))
                     else (case count p otp_inputs of
                             Inl e \<Rightarrow> Inl e
                           | Inr generic_otp_count \<Rightarrow>
                               if generic_otp_count > 0 then Inr (Some twofa_app_result)
                               else Inr None))
              else Inr None))"

text \<open>The flash error block saves a screenshot before it returns.\<close>

definition check_flash_error ::
  "fetcher \<Rightarrow> world \<Rightarrow> page_state_result option probe \<times> world" where
  "check_flash_error f w =
     (let p = cur_page w in
      case count p ''.flash-error'' of
        Inl e \<Rightarrow> (Inl e, w)
      | Inr flash_error_count \<Rightarrow>
          if flash_error_count > 0 then
            (case text_content p ''.flash-error'' of
               Inl e \<Rightarrow> (Inl e, w)
             | Inr error_text \<Rightarrow>
                 (let error_msg = strip (case error_text of None \<Rightarrow> [] | Some t \<Rightarrow> t)
                  in if error_msg \<noteq> [] then
                       (case inner_html p ''.flash-error'' of
                          Inl e \<Rightarrow> (Inl e, w)
                        | Inr error_html \<Rightarrow>
                            (Inr (Some ((PageStateResult LOGIN_ERROR)
                                          \<lparr>error_message := Some error_msg\<rparr>)),
                             save_debug_screenshot f ''login_error'' w))
                     else (Inr None, w)))
          else (Inr None, w))"

definition error_selectors :: "string list" where
  "error_selectors = [''.js-flash-alert'', ''#js-flash-container .flash'']"

fun scan_error_selectors :: "page \<Rightarrow> string list \<Rightarrow> page_state_result option probe" where
  "scan_error_selectors p [] = Inr None"
| "scan_error_selectors p (selector # rest) =
     (case count p selector of
        Inl e \<Rightarrow> Inl e
      | Inr n \<Rightarrow>
          if n > 0 then
            (case text_content p selector of
               Inl e \<Rightarrow> Inl e
             | Inr None \<Rightarrow> scan_error_selectors p rest
             | Inr (Some error_text) \<Rightarrow>
                 if error_text \<noteq> [] \<and> strip error_text \<noteq> []
                 then Inr (Some ((PageStateResult LOGIN_ERROR)
                                   \<lparr>error_message := Some (strip error_text)\<rparr>))
                 else scan_error_selectors p rest)
          else scan_error_selectors p rest)"

definition login_input :: string where
  \<open>login_input = ''input[name="login"], input#login_field''\<close>

definition password_input :: string where
  \<open>password_input = ''input[name="password"], input#password''\<close>

definition check_login_form :: "page \<Rightarrow> page_state_result option probe" where
  "check_login_form p =
     (case count p login_input of
        Inl e \<Rightarrow> Inl e
      | Inr login_count \<Rightarrow>
          (case count p password_input of
             Inl e \<Rightarrow> Inl e
           | Inr password_count \<Rightarrow>
               if login_count > 0 \<and> password_count > 0
               then Inr (Some (PageStateResult LOGIN_FORM)) else Inr None))"

text \<open>The last block reads the title and the body text for the log, then saves a screenshot.\<close>

definition unknown_state :: "fetcher \<Rightarrow> world \<Rightarrow> page_state_result probe \<times> world" where
  "unknown_state f w =
     (let p = cur_page w in
      case title p of
        Inl e \<Rightarrow> (Inl e, w)
      | Inr t \<Rightarrow>
          (case text_content p ''body'' of
             Inl e \<Rightarrow> (Inl e, w)
           | Inr body_text \<Rightarrow>
               (Inr (PageStateResult UNKNOWN), save_debug_screenshot f ''unknown_state'' w)))"

text \<open>The blocks before the security key page, and the blocks after it.\<close>

definition checks_before_security_key :: "page \<Rightarrow> page_state_result option probe" where
  "checks_before_security_key p =
     orelse (check_logged_in p)
       (orelse (check_captcha p)
          (orelse (check_mobile_url p) (check_mobile_elements p)))"

definition checks_after_security_key ::
  "fetcher \<Rightarrow> world \<Rightarrow> page_state_result probe \<times> world" where
  "checks_after_security_key f w =
     (let p = cur_page w in
      case orelse (check_security_key_button p)
             (orelse (check_authenticator_app p) (check_2fa_page_content p)) of
        Inl e \<Rightarrow> (Inl e, w)
      | Inr (Some r) \<Rightarrow> (Inr r, w)
      | Inr None \<Rightarrow>
          (case check_flash_error f w of
             (Inl e, w') \<Rightarrow> (Inl e, w')
           | (Inr (Some r), w') \<Rightarrow> (Inr r, w')
           | (Inr None, w') \<Rightarrow>
               (case orelse (scan_error_selectors p error_selectors) (check_login_form p) of
                  Inl e \<Rightarrow> (Inl e, w')
                | Inr (Some r) \<Rightarrow> (Inr r, w')
                | Inr None \<Rightarrow> unknown_state f w')))"

definition mobile_link :: string where
  "mobile_link = ''a[href*='' @ [CHR 0x27] @ ''two-factor/mobile'' @ [CHR 0x27] @ '']''"

definition security_key_unsupported ::
  "fetcher \<Rightarrow> world \<Rightarrow> page_state_result probe \<times> world" where
  "security_key_unsupported f w =
     (Inr security_key_result, save_debug_screenshot f ''security_key_2fa'' w)"

text \<open>\<open>except Exception as e\<close> of \<open>detect_page_state\<close>.\<close>

definition detect_failed :: "string \<Rightarrow> page_state_result" where
  "detect_failed e =
     (PageStateResult UNKNOWN)\<lparr>error_message := Some (''Error detecting page state: '' @ e)\<rparr>"

definition recursion_error :: string where
  "recursion_error = ''maximum recursion depth exceeded''"

text \<open>
  The security key page, found by its URL. When the page has a link to the mobile page
  with an address, the code navigates there, waits half a second and detects the state
  again: \<open>Inr w'\<close> is the world in which \<open>return await self.detect_page_state()\<close> is
  reached. \<open>Inl\<close> is what the block returns or raises itself.
\<close>

definition security_key_url_page ::
  "fetcher \<Rightarrow> world \<Rightarrow> (page_state_result probe \<times> world) + world" where
  "security_key_url_page f w =
     (let p = cur_page w in
      case count p mobile_link of
        Inl e \<Rightarrow> Inl (Inl e, w)
      | Inr mobile_link_count \<Rightarrow>
          if mobile_link_count > 0 then
            (case get_attribute p mobile_link ''href'' of
               Inl e \<Rightarrow> Inl (Inl e, w)
             | Inr None \<Rightarrow> Inl (security_key_unsupported f w)
             | Inr (Some href) \<Rightarrow>
                 if href \<noteq> [] then
                   (let href' = (if startswith href ''/''
                                 then ''https://github.com'' @ href else href)
                    in case perform (Goto href') w of
                         (Inl e, w1) \<Rightarrow> Inl (Inl e, w1)
                       | (Inr _, w1) \<Rightarrow> Inr (sleep (1/2) w1))
                 else Inl (security_key_unsupported f w))
          else Inl (security_key_unsupported f w))"

text \<open>The \<open>try\<close> body up to the call of \<open>detect_page_state\<close> inside it.\<close>

definition try_body :: "fetcher \<Rightarrow> world \<Rightarrow> (page_state_result probe \<times> world) + world" where
  "try_body f w =
     (let p = cur_page w;
          current_url = url p
      in case checks_before_security_key p of
           Inl e \<Rightarrow> Inl (Inl e, w)
         | Inr (Some r) \<Rightarrow> Inl (Inr r, w)
         | Inr None \<Rightarrow>
             if contains current_url ''two-factor/webauthn''
                \<or> contains current_url ''two-factor/security''
             then security_key_url_page f w
             else Inl (checks_after_security_key f w))"

text \<open>
  \<open>detect_page_state\<close> calls itself after it has navigated from the security key page to
  the mobile page. Python bounds the depth of such calls: the call that passes the limit
  of the interpreter raises \<open>RecursionError\<close>, an \<open>Exception\<close>, inside the \<open>try\<close> of the
  caller, which returns \<open>UNKNOWN\<close> with the text of the error. \<open>depth\<close> is the number of
  nested calls the interpreter still allows.
\<close>

fun detect_page_state :: "nat \<Rightarrow> fetcher \<Rightarrow> world \<Rightarrow> page_state_result \<times> world" where
  "detect_page_state depth f w =
     (if f_page f = None then (PageStateResult UNKNOWN, w)
      else
        let (outcome, w_end) =
              (case try_body f w of
                 Inl returned \<Rightarrow> returned
               | Inr w' \<Rightarrow>
                   (case depth of
                      0 \<Rightarrow> (Inl recursion_error, w')
                    | Suc d \<Rightarrow>
                        (let (r, w'') = detect_page_state d f w' in (Inr r, w''))))
        in case outcome of
             Inl e \<Rightarrow> (detect_failed e, w_end)
           | Inr r \<Rightarrow> (r, w_end))"

declare detect_page_state.simps [simp del]

section \<open>login_fetcher.py: the operations on the login flow\<close>

definition browser_not_started :: page_state_result where
  "browser_not_started =
     (PageStateResult UNKNOWN)\<lparr>error_message := Some ''Browser not started''\<rparr>"

definition submit_button :: string where
  \<open>submit_button = ''input[type="submit"][value="Sign in"], button[type="submit"]''\<close>

text \<open>\<open>LoginFetcher.submit_credentials\<close>\<close>

definition submit_credentials ::
  "nat \<Rightarrow> fetcher \<Rightarrow> string \<Rightarrow> string \<Rightarrow> world \<Rightarrow> page_state_result \<times> world" where
  "submit_credentials depth f username password w =
     (if f_page f = None then (browser_not_started, w)
      else
        case perform_all
               [WaitForSelector login_input 10000,
                Fill login_input username,
                Fill password_input password,
                Click submit_button,
                WaitForLoadState ''domcontentloaded'' 30000] w of
          (Inl e, w') \<Rightarrow>
            ((PageStateResult UNKNOWN)
               \<lparr>error_message := Some (''Error submitting credentials: '' @ e)\<rparr>, w')
        | (Inr _, w') \<Rightarrow> detect_page_state depth f (sleep (1/2) w'))"

definition otp_selectors :: "string list" where
  \<open>otp_selectors =
     [''input[name="app_otp"]'', ''input[id="app_totp"]'', ''input[name="sms_otp"]'',
      ''input[type="text"][autocomplete="one-time-code"]'']\<close>

definition submit_button_2fa :: string where
  \<open>submit_button_2fa = ''button[type="submit"], input[type="submit"]''\<close>

text \<open>\<open>LoginFetcher.submit_2fa_code\<close>\<close>

definition submit_2fa_code ::
  "nat \<Rightarrow> fetcher \<Rightarrow> string \<Rightarrow> world \<Rightarrow> page_state_result \<times> world" where
  "submit_2fa_code depth f code w =
     (if f_page f = None then (browser_not_started, w)
      else
        case first_present (cur_page w) otp_selectors of
          Inl e \<Rightarrow>
            ((PageStateResult UNKNOWN)
               \<lparr>error_message := Some (''Error submitting 2FA code: '' @ e)\<rparr>, w)
        | Inr None \<Rightarrow>
            ((PageStateResult UNKNOWN)
               \<lparr>error_message := Some ''Could not find 2FA input field''\<rparr>, w)
        | Inr (Some found_selector) \<Rightarrow>
            (case perform_all
                    [Fill found_selector code,
                     Click submit_button_2fa,
                     WaitForLoadState ''domcontentloaded'' 30000] w of
               (Inl e, w') \<Rightarrow>
                 ((PageStateResult UNKNOWN)
                    \<lparr>error_message := Some (''Error submitting 2FA code: '' @ e)\<rparr>, w')
             | (Inr _, w') \<Rightarrow> detect_page_state depth f (sleep (1/2) w')))"

text \<open>
  \<open>LoginFetcher.wait_for_mobile_approval\<close>. The \<open>while True\<close> loop may run forever (it
  does when the poll interval is not positive and the page never changes), so it is a
  partial function: \<open>None\<close> is the loop that does not return.
\<close>

definition mobile_timeout_result :: "int \<Rightarrow> page_state_result" where
  "mobile_timeout_result timeout_seconds =
     \<lparr>state = TWOFA_MOBILE,
      error_message = Some (''Mobile approval timed out after '' @ str_int timeout_seconds
                            @ '' seconds. Please try again.''),
      twofa_method = Some ''mobile'', verification_code = None\<rparr>"

partial_function (option) mobile_poll ::
  "nat \<Rightarrow> fetcher \<Rightarrow> int \<Rightarrow> rat \<Rightarrow> rat \<Rightarrow> world \<Rightarrow> (page_state_result \<times> world) option" where
  "mobile_poll depth f timeout_seconds poll_interval start_time w =
     (let elapsed = now w - start_time in
      if elapsed > of_int timeout_seconds
      then Some (mobile_timeout_result timeout_seconds,
                 save_debug_screenshot f ''mobile_2fa_timeout'' w)
      else
        let (result, w') = detect_page_state depth f w in
        if state result = LOGGED_IN then Some (result, w')
        else if state result = LOGIN_ERROR then Some (result, w')
        else if state result \<noteq> TWOFA_MOBILE \<and> state result \<noteq> UNKNOWN then Some (result, w')
        else mobile_poll depth f timeout_seconds poll_interval start_time
               (sleep poll_interval w'))"

definition wait_for_mobile_approval ::
  "nat \<Rightarrow> fetcher \<Rightarrow> int \<Rightarrow> rat \<Rightarrow> world \<Rightarrow> (page_state_result \<times> world) option" where
  "wait_for_mobile_approval depth f timeout_seconds poll_interval w =
     (if f_page f = None then Some (browser_not_started, w)
      else mobile_poll depth f timeout_seconds poll_interval (now w) w)"

text \<open>
  \<open>extract_username_async\<close>. A locator inside a locator is written with Playwright's
  chaining \<open>>>\<close>.
\<close>

definition user_menu_img :: string where
  "user_menu_img = user_menu @ '' >> img''"

definition meta_user_login :: string where
  \<open>meta_user_login = ''meta[name="user-login"]''\<close>

definition profile_link :: string where
  \<open>profile_link = ''a[href^="/"]:has-text("Your profile")''\<close>

definition username_from_menu :: "page \<Rightarrow> string option probe" where
  "username_from_menu p =
     (case count p user_menu of
        Inl e \<Rightarrow> Inl e
      | Inr n \<Rightarrow>
          if n > 0 then
            (case count p user_menu_img of
               Inl e \<Rightarrow> Inl e
             | Inr m \<Rightarrow>
                 if m > 0 then
                   (case get_attribute p user_menu_img ''alt'' of
                      Inl e \<Rightarrow> Inl e
                    | Inr None \<Rightarrow> Inr None
                    | Inr (Some alt) \<Rightarrow>
                        if alt \<noteq> [] \<and> startswith alt ''@'' then Inr (Some (tl alt))
                        else Inr None)
                 else Inr None)
          else Inr None)"

definition username_from_profile :: "page \<Rightarrow> string option probe" where
  "username_from_profile p =
     orelse
       (case count p meta_user_login of
          Inl e \<Rightarrow> Inl e
        | Inr n \<Rightarrow>
            if n > 0 then
              (case get_attribute p meta_user_login ''content'' of
                 Inl e \<Rightarrow> Inl e
               | Inr None \<Rightarrow> Inr None
               | Inr (Some c) \<Rightarrow> if c \<noteq> [] then Inr (Some c) else Inr None)
            else Inr None)
       (case count p profile_link of
          Inl e \<Rightarrow> Inl e
        | Inr n \<Rightarrow>
            if n > 0 then
              (case get_attribute p profile_link ''href'' of
                 Inl e \<Rightarrow> Inl e
               | Inr None \<Rightarrow> Inr None
               | Inr (Some href) \<Rightarrow>
                   if href \<noteq> [] \<and> startswith href ''/'' then Inr (Some (tl href))
                   else Inr None)
            else Inr None)"

definition extract_username_async :: "world \<Rightarrow> string option probe \<times> world" where
  "extract_username_async w =
     (case username_from_menu (cur_page w) of
        Inl e \<Rightarrow> (Inl e, w)
      | Inr (Some name) \<Rightarrow> (Inr (Some name), w)
      | Inr None \<Rightarrow>
          (case perform_all
                  [Goto ''https://github.com/settings/profile'',
                   WaitForLoadState ''domcontentloaded'' 30000] w of
             (Inl e, w') \<Rightarrow> (Inl e, w')
           | (Inr _, w') \<Rightarrow> (username_from_profile (cur_page w'), w')))"

text \<open>
  \<open>LoginFetcher.save_auth_state\<close>. \<open>save_username\<close>, the creation of the directory and
  \<open>storage_state\<close> write files outside the program: they are calls that the world lets
  return or raise.
\<close>

definition save_auth_state :: "fetcher \<Rightarrow> string \<Rightarrow> world \<Rightarrow> (bool \<times> string option) \<times> world" where
  "save_auth_state f account w =
     (if f_context f = None \<or> f_page f = None then ((False, None), w)
      else
        case perform (Goto ''https://github.com'') w of
          (Inl e, w1) \<Rightarrow> ((False, None), w1)
        | (Inr _, w1) \<Rightarrow>
            (case extract_username_async (sleep (1/2) w1) of
               (Inl e, w2) \<Rightarrow> ((False, None), w2)
             | (Inr username, w2) \<Rightarrow>
                 (case perform_all
                         ((case username of
                             None \<Rightarrow> []
                           | Some name \<Rightarrow> if name \<noteq> [] then [SaveUsername account name] else [])
                          @ [MkdirAuthStateDir, StorageState account]) w2 of
                    (Inl e, w3) \<Rightarrow> ((False, None), w3)
                  | (Inr _, w3) \<Rightarrow> ((True, username), w3))))"

section \<open>The session manager\<close>

text \<open>
  \<open>LoginState\<close>; the state \<open>CAPTCHA\<close> of the source is written \<open>CAPTCHA_STATE\<close> here, since
  \<open>CAPTCHA\<close> is already the page state.
\<close>

datatype login_state =
    INITIALIZED | SUBMITTING_CREDENTIALS | WAITING_2FA | WAITING_MOBILE | SUBMITTING_2FA
  | SUCCESS | ERROR | CAPTCHA_STATE

text \<open>
  Modelled from the spec: the session record of \<open>ghinbox/api/login_state.py\<close>, which is
  not among the sources. The fields are those of section 3 of the specification, under
  the attribute names the route handlers read (\<open>session.state\<close>, \<open>session.account\<close>,
  \<open>session.error_message\<close>, \<open>session.username\<close>, \<open>session.requires_2fa\<close>,
  \<open>session.twofa_method\<close>), each with the prefix \<open>s_\<close>.
\<close>

record login_session =
  s_session_id :: string
  s_account :: string
  s_state :: login_state
  s_created_at :: rat
  s_updated_at :: rat
  s_error_message :: "string option"
  s_username :: "string option"
  s_requires_2fa :: bool
  s_twofa_method :: "string option"

text \<open>
  Modelled from the spec: the session registry (\<open>get_session_manager()\<close> of
  \<open>login_state.py\<close>), a mapping from session id to session; each session owns one
  fetcher, kept here under the same id.
\<close>

record session_manager =
  sessions :: "string \<rightharpoonup> login_session"
  fetchers :: "string \<rightharpoonup> fetcher"

text \<open>Modelled from the spec: \<open>manager.get_session\<close>, the lookup of a session id.\<close>

definition get_session :: "session_manager \<Rightarrow> string \<Rightarrow> login_session option" where
  "get_session m session_id = sessions m session_id"

text \<open>Modelled from the spec: \<open>manager.get_fetcher\<close>, the fetcher a session owns.\<close>

definition get_fetcher :: "session_manager \<Rightarrow> string \<Rightarrow> fetcher option" where
  "get_fetcher m session_id = fetchers m session_id"

text \<open>
  Modelled from the spec: \<open>manager.update_state\<close>. It stores the new state and the time of
  the update, and each of the keyword arguments that is given (\<open>None\<close> is an argument not
  given); the second factor fields are cleared on the terminal states \<open>SUCCESS\<close> and
  \<open>ERROR\<close>. A session id that is not registered changes nothing.
\<close>

definition update_state ::
  "session_manager \<Rightarrow> string \<Rightarrow> login_state \<Rightarrow> string option \<Rightarrow> string option
   \<Rightarrow> bool option \<Rightarrow> string option \<Rightarrow> rat \<Rightarrow> session_manager" where
  "update_state m session_id new_state error_message_arg username_arg requires_2fa_arg
     twofa_method_arg t =
     (case sessions m session_id of
        None \<Rightarrow> m
      | Some s \<Rightarrow>
          (let s1 = s\<lparr>s_state := new_state, s_updated_at := t\<rparr>;
               s2 = (case error_message_arg of None \<Rightarrow> s1
                     | Some e \<Rightarrow> s1\<lparr>s_error_message := Some e\<rparr>);
               s3 = (case username_arg of None \<Rightarrow> s2
                     | Some u \<Rightarrow> s2\<lparr>s_username := Some u\<rparr>);
               s4 = (case requires_2fa_arg of None \<Rightarrow> s3
                     | Some b \<Rightarrow> s3\<lparr>s_requires_2fa := b\<rparr>);
               s5 = (case twofa_method_arg of None \<Rightarrow> s4
                     | Some tm \<Rightarrow> s4\<lparr>s_twofa_method := Some tm\<rparr>);
               s6 = (if new_state = SUCCESS \<or> new_state = ERROR
                     then s5\<lparr>s_requires_2fa := False, s_twofa_method := None\<rparr> else s5)
           in m\<lparr>sessions := (sessions m)(session_id \<mapsto> s6)\<rparr>))"

text \<open>
  Modelled from the spec: \<open>manager.remove_session\<close>. The session and the fetcher it owns
  leave the registry; the id is invalid from then on.
\<close>

definition remove_session :: "session_manager \<Rightarrow> string \<Rightarrow> session_manager" where
  "remove_session m session_id =
     m\<lparr>sessions := (sessions m)(session_id := None),
       fetchers := (fetchers m)(session_id := None)\<rparr>"

section \<open>login_routes.py: the route handlers\<close>

text \<open>
  \<open>HTTPException(status_code, detail)\<close>. The detail texts of the source are
  \<open>SessionNotFound\<close>: "Session not found or expired";
  \<open>InvalidSessionState op st\<close>: "Invalid session state for \<open>op\<close>: \<open>st.value\<close>";
  \<open>NoFetcher\<close>: "No fetcher associated with session".
\<close>

datatype detail = SessionNotFound | InvalidSessionState string login_state | NoFetcher

datatype http_exception = HTTPException nat detail

text \<open>\<open>LoginResponse\<close>, each field with the prefix \<open>r_\<close>.\<close>

record login_response =
  r_session_id :: string
  r_status :: string
  r_message :: "string option"
  r_error :: "string option"
  r_username :: "string option"
  r_twofa_method :: "string option"
  r_verification_code :: "string option"

definition LoginResponse :: "string \<Rightarrow> string \<Rightarrow> login_response" where
  "LoginResponse session_id status =
     \<lparr>r_session_id = session_id, r_status = status, r_message = None, r_error = None,
      r_username = None, r_twofa_method = None, r_verification_code = None\<rparr>"

text \<open>\<open>status_map\<close> of \<open>get_login_status\<close>\<close>

fun status_map :: "login_state \<Rightarrow> string" where
  "status_map INITIALIZED = ''initialized''"
| "status_map SUBMITTING_CREDENTIALS = ''submitting''"
| "status_map WAITING_2FA = ''waiting_2fa''"
| "status_map WAITING_MOBILE = ''waiting_mobile''"
| "status_map SUBMITTING_2FA = ''submitting''"
| "status_map SUCCESS = ''success''"
| "status_map ERROR = ''error''"
| "status_map CAPTCHA_STATE = ''captcha''"

type_synonym 'a handled = "(http_exception + 'a) \<times> session_manager \<times> world"

text \<open>
  The branch \<open>if result.state == PageState.LOGGED_IN\<close>, the same in the three handlers:
  the authentication state is saved, and the session ends in \<open>SUCCESS\<close> or in \<open>ERROR\<close>.
\<close>

definition logged_in ::
  "session_manager \<Rightarrow> string \<Rightarrow> login_session \<Rightarrow> fetcher \<Rightarrow> world \<Rightarrow> login_response handled" where
  "logged_in m session_id session f w =
     (let ((success, username), w') = save_auth_state f (s_account session) w in
      if success then
        (Inr ((LoginResponse session_id ''success'')
                \<lparr>r_username := username, r_message := Some ''Login successful''\<rparr>),
         update_state m session_id SUCCESS None username None None (now w'), w')
      else
        (Inr ((LoginResponse session_id ''error'')\<lparr>r_error := Some ''Failed to save auth state''\<rparr>),
         update_state m session_id ERROR (Some ''Failed to save auth state'') None None None
           (now w'), w'))"

text \<open>
  The handler \<open>submit_credentials\<close> of \<open>login_routes.py\<close> (the fetcher has a method of the same
  name). No call inside its \<open>try\<close> raises: the methods of the fetcher catch every exception
  themselves.
\<close>

definition submit_credentials_route ::
  "nat \<Rightarrow> string \<Rightarrow> string \<Rightarrow> string \<Rightarrow> session_manager \<Rightarrow> world \<Rightarrow> login_response handled" where
  "submit_credentials_route depth session_id username password m w =
     (case get_session m session_id of
        None \<Rightarrow> (Inl (HTTPException 404 SessionNotFound), m, w)
      | Some session \<Rightarrow>
          if s_state session \<noteq> INITIALIZED
          then (Inl (HTTPException 400 (InvalidSessionState ''credentials'' (s_state session))),
                m, w)
          else
            (case get_fetcher m session_id of
               None \<Rightarrow> (Inl (HTTPException 500 NoFetcher), m, w)
             | Some f \<Rightarrow>
                 (let m1 = update_state m session_id SUBMITTING_CREDENTIALS None None None None
                             (now w);
                      (result, w1) = submit_credentials depth f username password w
                  in if state result = LOGGED_IN then logged_in m1 session_id session f w1
                     else if state result = TWOFA_MOBILE then
                       (Inr ((LoginResponse session_id ''waiting_mobile'')
                               \<lparr>r_twofa_method := Some ''mobile'',
                                r_verification_code := verification_code result,
                                r_message :=
                                  Some ''Approve the login request on your GitHub Mobile app''\<rparr>),
                        update_state m1 session_id WAITING_MOBILE None None (Some True)
                          (Some ''mobile'') (now w1), w1)
                     else if state result = TWOFA_APP \<or> state result = TWOFA_SMS then
                       (Inr ((LoginResponse session_id ''waiting_2fa'')
                               \<lparr>r_twofa_method := twofa_method result,
                                r_message := Some ''Enter your 2FA code''\<rparr>),
                        update_state m1 session_id WAITING_2FA None None (Some True)
                          (twofa_method result) (now w1), w1)
                     else if state result = TWOFA_SECURITY_KEY then
                       (Inr ((LoginResponse session_id ''error'')
                               \<lparr>r_error := Some (or_else (error_message result)
                                  ''Security key 2FA not supported. Please configure authenticator app.'')\<rparr>),
                        update_state m1 session_id ERROR (error_message result) None None None
                          (now w1), w1)
                     else if state result = CAPTCHA then
                       (Inr ((LoginResponse session_id ''captcha'')
                               \<lparr>r_error := Some (or_else (error_message result)
                                  ''CAPTCHA required. Use --headed-login flag.'')\<rparr>),
                        update_state m1 session_id CAPTCHA_STATE (error_message result) None None
                          None (now w1), w1)
                     else if state result = LOGIN_ERROR then
                       (Inr ((LoginResponse session_id ''error'')
                               \<lparr>r_error := Some (or_else (error_message result) ''Login failed'')\<rparr>),
                        update_state m1 session_id ERROR (error_message result) None None None
                          (now w1), w1)
                     else
                       (Inr ((LoginResponse session_id ''error'')
                               \<lparr>r_error := Some (or_else (error_message result)
                                  ''Unknown page state after credentials'')\<rparr>),
                        update_state m1 session_id ERROR
                          (Some (or_else (error_message result) ''Unknown page state'')) None None
                          None (now w1), w1))))"

text \<open>The handler \<open>submit_2fa\<close>\<close>

definition submit_2fa ::
  "nat \<Rightarrow> string \<Rightarrow> string \<Rightarrow> session_manager \<Rightarrow> world \<Rightarrow> login_response handled" where
  "submit_2fa depth session_id code m w =
     (case get_session m session_id of
        None \<Rightarrow> (Inl (HTTPException 404 SessionNotFound), m, w)
      | Some session \<Rightarrow>
          if s_state session \<noteq> WAITING_2FA
          then (Inl (HTTPException 400 (InvalidSessionState ''2FA'' (s_state session))), m, w)
          else
            (case get_fetcher m session_id of
               None \<Rightarrow> (Inl (HTTPException 500 NoFetcher), m, w)
             | Some f \<Rightarrow>
                 (let m1 = update_state m session_id SUBMITTING_2FA None None None None (now w);
                      (result, w1) = submit_2fa_code depth f code w
                  in if state result = LOGGED_IN then logged_in m1 session_id session f w1
                     else if state result = LOGIN_ERROR then
                       (Inr ((LoginResponse session_id ''waiting_2fa'')
                               \<lparr>r_error := Some (or_else (error_message result)
                                  ''Invalid 2FA code, please try again'')\<rparr>),
                        update_state m1 session_id WAITING_2FA None None None None (now w1), w1)
                     else
                       (Inr ((LoginResponse session_id ''error'')
                               \<lparr>r_error := Some (or_else (error_message result)
                                  ''Unknown state after 2FA submission'')\<rparr>),
                        update_state m1 session_id ERROR
                          (Some (or_else (error_message result) ''Unknown state after 2FA'')) None
                          None None (now w1), w1))))"

text \<open>
  The handler \<open>wait_for_mobile_2fa\<close>; it calls the fetcher with the default poll interval of
  2 seconds. \<open>None\<close> is the handler that does not return.
\<close>

definition wait_for_mobile_2fa ::
  "nat \<Rightarrow> string \<Rightarrow> int \<Rightarrow> session_manager \<Rightarrow> world \<Rightarrow> login_response handled option" where
  "wait_for_mobile_2fa depth session_id timeout_seconds m w =
     (case get_session m session_id of
        None \<Rightarrow> Some (Inl (HTTPException 404 SessionNotFound), m, w)
      | Some session \<Rightarrow>
          if s_state session \<noteq> WAITING_MOBILE
          then Some (Inl (HTTPException 400
                            (InvalidSessionState ''mobile wait'' (s_state session))), m, w)
          else
            (case get_fetcher m session_id of
               None \<Rightarrow> Some (Inl (HTTPException 500 NoFetcher), m, w)
             | Some f \<Rightarrow>
                 (case wait_for_mobile_approval depth f timeout_seconds 2 w of
                    None \<Rightarrow> None
                  | Some (result, w1) \<Rightarrow>
                      Some
                        (if state result = LOGGED_IN then logged_in m session_id session f w1
                         else if state result = TWOFA_MOBILE then
                           (Inr ((LoginResponse session_id ''waiting_mobile'')
                                   \<lparr>r_twofa_method := Some ''mobile'',
                                    r_error := error_message result,
                                    r_message := Some ''Mobile approval timed out. Try again.''\<rparr>),
                            m, w1)
                         else if state result = LOGIN_ERROR then
                           (Inr ((LoginResponse session_id ''error'')
                                   \<lparr>r_error := Some (or_else (error_message result)
                                      ''Mobile 2FA failed'')\<rparr>),
                            update_state m session_id ERROR (error_message result) None None None
                              (now w1), w1)
                         else
                           (Inr ((LoginResponse session_id ''error'')
                                   \<lparr>r_error := Some (or_else (error_message result)
                                      ''Unexpected state during mobile wait'')\<rparr>),
                            update_state m session_id ERROR
                              (Some (or_else (error_message result) ''Unexpected state'')) None
                              None None (now w1), w1)))))"

text \<open>The handler \<open>get_login_status\<close>\<close>

definition get_login_status :: "string \<Rightarrow> session_manager \<Rightarrow> http_exception + login_response" where
  "get_login_status session_id m =
     (case get_session m session_id of
        None \<Rightarrow> Inl (HTTPException 404 SessionNotFound)
      | Some session \<Rightarrow>
          Inr ((LoginResponse (s_session_id session) (status_map (s_state session)))
                 \<lparr>r_error := s_error_message session,
                  r_username := s_username session,
                  r_twofa_method :=
                    (if s_requires_2fa session then s_twofa_method session else None)\<rparr>))"

text \<open>The handler \<open>cancel_login\<close>\<close>

definition cancel_login :: "string \<Rightarrow> session_manager \<Rightarrow> world \<Rightarrow> login_response handled" where
  "cancel_login session_id m w =
     (case get_session m session_id of
        None \<Rightarrow> (Inl (HTTPException 404 SessionNotFound), m, w)
      | Some session \<Rightarrow>
          (let w' = (case get_fetcher m session_id of
                       None \<Rightarrow> w
                     | Some f \<Rightarrow> snd (close f w))
           in (Inr ((LoginResponse session_id ''error'')\<lparr>r_message := Some ''Session cancelled''\<rparr>),
               remove_session m session_id, w')))"

section \<open>The properties the specification states\<close>



text \<open>The same with the state of the scan: whether a word character precedes the text.\<close>

definition token_after :: "bool \<Rightarrow> string \<Rightarrow> nat \<Rightarrow> bool" where
  "token_after prev_word t i \<longleftrightarrow>
     i + 1 < length t \<and> re_digit (t ! i) \<and> re_digit (t ! (i + 1))
     \<and> (if i = 0 then \<not> prev_word else \<not> re_word (t ! (i - 1)))
     \<and> (i + 2 = length t \<or> \<not> re_word (t ! (i + 2)))"



text \<open>
  What every operation of the fetcher leaves of the world: the trace only grows, the clock
  does not go back, and the site and the driver are the same.
\<close>

definition evolves :: "world \<Rightarrow> world \<Rightarrow> bool" where
  "evolves w w' \<longleftrightarrow>
     prefix (trace w) (trace w') \<and> now w \<le> now w' \<and> site w' = site w \<and> fails w' = fails w"

section \<open>Fixtures\<close>

text \<open>
  Pages and worlds for the closed instances below: a page with no element at all, the
  world that always shows one page and in which no call raises, and a fetcher with its
  browser attached.
\<close>

definition blank_page :: page where
  "blank_page =
     \<lparr>url = ''https://github.com/login'', count = (\<lambda>sel. Inr 0),
      text_content = (\<lambda>sel. Inr None), get_attribute = (\<lambda>sel name. Inr None),
      inner_html = (\<lambda>sel. Inr []), content = Inr [], title = Inr []\<rparr>"

definition static_world :: "page \<Rightarrow> world" where
  "static_world p = \<lparr>site = (\<lambda>tr t. p), fails = (\<lambda>tr t a. None), trace = [], now = 0\<rparr>"

definition attached :: fetcher where
  "attached = \<lparr>f_playwright = Some Handle, f_browser = Some Handle,
               f_context = Some Handle, f_page = Some Handle\<rparr>"

text \<open>A page with the user menu of a logged-in user and a flash error with a text.\<close>

definition logged_in_with_banner :: page where
  "logged_in_with_banner =
     blank_page\<lparr>count := (\<lambda>sel. if sel = user_menu \<or> sel = ''.flash-error'' then Inr 1 else Inr 0),
                text_content := (\<lambda>sel. if sel = ''.flash-error''
                                         then Inr (Some ''Incorrect username or password.'')
                                         else Inr None)\<rparr>"



text \<open>A page with a flash error that has a text, and nothing else.\<close>

definition error_page :: page where
  "error_page =
     blank_page\<lparr>count := (\<lambda>sel. if sel = ''.flash-error'' then Inr 1 else Inr 0),
                text_content := (\<lambda>sel. if sel = ''.flash-error''
                                         then Inr (Some ''Incorrect username or password.'')
                                         else Inr None)\<rparr>"

text \<open>A registry with the one session \<open>s1\<close> of the account \<open>acme\<close>, in a given state, with its fetcher.\<close>

definition one_session :: "login_state \<Rightarrow> session_manager" where
  "one_session st =
     \<lparr>sessions = [''s1'' \<mapsto>
         \<lparr>s_session_id = ''s1'', s_account = ''acme'', s_state = st, s_created_at = 0,
          s_updated_at = 0, s_error_message = None, s_username = None,
          s_requires_2fa = False, s_twofa_method = None\<rparr>],
      fetchers = [''s1'' \<mapsto> attached]\<rparr>"

text \<open>A page with the input of the authenticator app, and the page of a logged-in user.\<close>

definition otp_page :: page where
  "otp_page = blank_page\<lparr>count := (\<lambda>sel. if sel = hd otp_selectors then Inr 1 else Inr 0)\<rparr>"

definition logged_in_page :: page where
  "logged_in_page = blank_page\<lparr>count := (\<lambda>sel. if sel = user_menu then Inr 1 else Inr 0)\<rparr>"

text \<open>A world that shows the input for the code until the form is submitted and the page of a
  logged-in user afterwards, and in which the write of the storage state raises.\<close>

definition storage_fails_world :: world where
  "storage_fails_world =
     \<lparr>site = (\<lambda>tr t. if Click submit_button_2fa \<in> set tr then logged_in_page else otp_page),
      fails = (\<lambda>tr t a. if a = StorageState ''acme'' then Some ''disk full'' else None),
      trace = [], now = 0\<rparr>"

text \<open>The page of the mobile challenge, found by its URL.\<close>

definition mobile_page :: page where
  "mobile_page = blank_page\<lparr>url := ''https://github.com/sessions/two-factor/mobile''\<rparr>"

text \<open>
  A world that shows the page of a logged-in user and in which the wait for the login
  input times out; a page with the input for the SMS code and the generic one.
\<close>

definition timeout_world :: world where
  "timeout_world =
     \<lparr>site = (\<lambda>tr t. logged_in_page),
      fails = (\<lambda>tr t a. if a = WaitForSelector login_input 10000
                         then Some ''Timeout 10000ms exceeded.'' else None),
      trace = [], now = 0\<rparr>"

definition sms_page :: page where
  "sms_page = blank_page\<lparr>count := (\<lambda>sel. if sel = otp_selectors ! 2 \<or> sel = otp_selectors ! 3
                                        then Inr 1 else Inr 0)\<rparr>"

section \<open>The bare two-digit token scan\<close>




lemma token_after_short: "length s < 2 \<Longrightarrow> \<not> token_after pw s i"
  by (auto simp: token_after_def)






section \<open>How the operations change the world\<close>

lemma evolves_refl: "evolves w w"
  by (simp add: evolves_def)

lemma evolves_trans: "evolves w w1 \<Longrightarrow> evolves w1 w2 \<Longrightarrow> evolves w w2"
  by (auto simp: evolves_def)

lemma evolves_perform: "evolves w (snd (perform a w))"
  by (simp add: evolves_def perform_def split: option.splits)

lemma evolves_perform': "perform a w = (r, w') \<Longrightarrow> evolves w w'"
  using evolves_perform[of w a] by simp

lemma evolves_sleep: "evolves w (sleep d w)"
  by (simp add: evolves_def sleep_def)

lemma evolves_screenshot: "evolves w (save_debug_screenshot f name w)"
  by (simp add: save_debug_screenshot_def evolves_perform evolves_refl)

lemma evolves_perform_all: "evolves w (snd (perform_all as w))"
proof (induction as arbitrary: w)
  case Nil
  show ?case by (simp add: evolves_refl)
next
  case (Cons a as)
  obtain r w1 where p: "perform a w = (r, w1)" by (cases "perform a w")
  have e1: "evolves w w1" using evolves_perform'[OF p] .
  show ?case
  proof (cases r)
    case (Inl e)
    with p e1 show ?thesis by simp
  next
    case (Inr u)
    with p evolves_trans[OF e1 Cons.IH[of w1]] show ?thesis by simp
  qed
qed

lemma evolves_check_flash_error: "evolves w (snd (check_flash_error f w))"
  by (simp add: check_flash_error_def Let_def evolves_refl evolves_screenshot
           split: sum.splits option.splits)

lemma evolves_unknown_state: "evolves w (snd (unknown_state f w))"
  by (simp add: unknown_state_def Let_def evolves_refl evolves_screenshot split: sum.splits)

lemma evolves_checks_after: "evolves w (snd (checks_after_security_key f w))"
proof -
  obtain r w1 where c: "check_flash_error f w = (r, w1)" by (cases "check_flash_error f w")
  have e1: "evolves w w1" using evolves_check_flash_error[of w f] c by simp
  have e2: "evolves w (snd (unknown_state f w1))"
    using evolves_trans[OF e1 evolves_unknown_state] .
  show ?thesis
    using c e1 e2
    by (simp add: checks_after_security_key_def Let_def evolves_refl
             split: sum.splits option.splits)
qed

lemma evolves_security_key_unsupported: "evolves w (snd (security_key_unsupported f w))"
  by (simp add: security_key_unsupported_def evolves_screenshot)

lemma evolves_security_key_url_page:
  "(security_key_url_page f w = Inl (x, w') \<longrightarrow> evolves w w')
   \<and> (security_key_url_page f w = Inr w' \<longrightarrow> evolves w w')"
proof -
  have u: "security_key_unsupported f w = (x, w') \<Longrightarrow> evolves w w'"
    using evolves_security_key_unsupported[of w f] by simp
  have g: "perform a w = (r, w1) \<Longrightarrow> evolves w (sleep (1/2) w1)" for a r w1
    using evolves_trans[OF evolves_perform' evolves_sleep] .
  show ?thesis
    by (auto simp: security_key_url_page_def Let_def evolves_refl
             split: sum.splits option.splits if_splits prod.splits
             dest: u evolves_perform' g)
qed

lemma evolves_try_body:
  "(try_body f w = Inl (x, w') \<longrightarrow> evolves w w')
   \<and> (try_body f w = Inr w' \<longrightarrow> evolves w w')"
proof -
  have c: "checks_after_security_key f w = (x, w') \<Longrightarrow> evolves w w'"
    using evolves_checks_after[of w f] by simp
  show ?thesis
    using evolves_security_key_url_page[of f w x w']
    by (auto simp: try_body_def Let_def evolves_refl split: sum.splits option.splits if_splits
             dest: c)
qed

lemma evolves_try_body_Inl: "try_body f w = Inl x \<Longrightarrow> evolves w (snd x)"
  using evolves_try_body[of f w "fst x" "snd x"] by simp

lemma evolves_try_body_Inr: "try_body f w = Inr w' \<Longrightarrow> evolves w w'"
  using evolves_try_body[of f w undefined w'] by simp

lemma snd_detect:
  "snd (detect_page_state depth f w) =
     (if f_page f = None then w
      else case try_body f w of
             Inl x \<Rightarrow> snd x
           | Inr w' \<Rightarrow> (case depth of 0 \<Rightarrow> w' | Suc d \<Rightarrow> snd (detect_page_state d f w')))"
  by (subst detect_page_state.simps)
     (simp split: sum.splits prod.splits nat.splits)

lemma evolves_detect: "evolves w (snd (detect_page_state depth f w))"
proof (induction depth arbitrary: w)
  case 0
  show ?case
    by (subst snd_detect)
       (simp add: evolves_refl evolves_try_body_Inl evolves_try_body_Inr split: sum.splits)
next
  case (Suc d)
  have "try_body f w = Inr w' \<Longrightarrow> evolves w (snd (detect_page_state d f w'))" for w'
    using evolves_trans[OF evolves_try_body_Inr Suc.IH] .
  then show ?case
    by (subst snd_detect)
       (simp add: evolves_refl evolves_try_body_Inl split: sum.splits)
qed

lemma evolves_detect': "detect_page_state depth f w = (r, w') \<Longrightarrow> evolves w w'"
  using evolves_detect[of w depth f] by simp

lemma perform_all_append:
  "perform_all (as @ bs) w =
     (case perform_all as w of (Inl e, w') \<Rightarrow> (Inl e, w') | (Inr u, w') \<Rightarrow> perform_all bs w')"
  by (induction as arbitrary: w) (auto split: prod.splits sum.splits)

lemma perform_all_head_trace:
  "\<exists>rest. trace (snd (perform_all (a # as) w)) = trace w @ a # rest"
proof -
  obtain r w1 where p: "perform a w = (r, w1)" by (cases "perform a w")
  then have t: "trace w1 = trace w @ [a]" by (auto simp: perform_def split: option.splits)
  have "prefix (trace w1) (trace (snd (perform_all as w1)))"
    using evolves_perform_all[of w1 as] by (simp add: evolves_def)
  then obtain ext where "trace (snd (perform_all as w1)) = trace w1 @ ext"
    by (auto simp: prefix_def)
  with p t show ?thesis by (cases r) auto
qed

lemma first_present_find:
  assumes "\<forall>s \<in> set sels. \<exists>n. count p s = Inr n"
  shows "first_present p sels = Inr (find (\<lambda>s. count p s \<noteq> Inr 0) sels)"
  using assms by (induction sels) auto

lemma submit_2fa_code_trace:
  assumes "f_page f = Some h" and "first_present (cur_page w) otp_selectors = Inr (Some sel)"
  shows "\<exists>rest. trace (snd (submit_2fa_code depth f code w)) = trace w @ Fill sel code # rest"
proof -
  let ?acts = "[Fill sel code, Click submit_button_2fa,
                WaitForLoadState ''domcontentloaded'' 30000]"
  obtain r w1 where p: "perform_all ?acts w = (r, w1)" by (cases "perform_all ?acts w")
  from perform_all_head_trace[of "Fill sel code" _ w, of "tl ?acts"] p
  obtain rest where t1: "trace w1 = trace w @ Fill sel code # rest" by auto
  show ?thesis
  proof (cases r)
    case (Inl e)
    with assms p t1 show ?thesis by (simp add: submit_2fa_code_def)
  next
    case (Inr u)
    have "evolves w1 (snd (detect_page_state depth f (sleep (1/2) w1)))"
      using evolves_trans[OF evolves_sleep evolves_detect] .
    then obtain ext where
      "trace (snd (detect_page_state depth f (sleep (1/2) w1))) = trace w1 @ ext"
      by (auto simp: evolves_def prefix_def)
    with assms p t1 Inr show ?thesis by (simp add: submit_2fa_code_def)
  qed
qed

section \<open>The polling loop returns\<close>

lemma sleep_now: "0 < d \<Longrightarrow> now (sleep d w) = now w + d"
  by (simp add: sleep_def)

lemma poll_measure_decreases:
  fixes p :: rat
  assumes "0 < p" and "n + p \<le> n2" and "\<not> n - s > of_int T"
  shows "nat \<lfloor>(of_int T - (n2 - s)) / p + 1\<rfloor> < nat \<lfloor>(of_int T - (n - s)) / p + 1\<rfloor>"
proof -
  let ?x = "(of_int T - (n - s)) / p"
  have "of_int T - (n2 - s) \<le> (of_int T - (n - s)) - p" using assms(2) by simp
  then have "(of_int T - (n2 - s)) / p \<le> ((of_int T - (n - s)) - p) / p"
    using assms(1) by (simp add: divide_right_mono)
  also have "\<dots> = ?x - 1" using assms(1) by (simp add: diff_divide_distrib)
  finally have le: "(of_int T - (n2 - s)) / p + 1 \<le> ?x" by simp
  have "0 \<le> ?x" using assms(1,3) by simp
  then have "0 \<le> \<lfloor>?x\<rfloor>" by simp
  moreover have "\<lfloor>(of_int T - (n2 - s)) / p + 1\<rfloor> \<le> \<lfloor>?x\<rfloor>" using le by (rule floor_mono)
  moreover have "\<lfloor>?x + 1\<rfloor> = \<lfloor>?x\<rfloor> + 1" by simp
  ultimately show ?thesis by linarith
qed

lemma mobile_poll_returns:
  assumes "0 < poll_interval"
  shows "\<exists>r w'. mobile_poll depth f timeout_seconds poll_interval start_time w = Some (r, w')
           \<and> (r = mobile_timeout_result timeout_seconds
                \<or> (state r \<noteq> TWOFA_MOBILE \<and> state r \<noteq> UNKNOWN))"
proof (induction "nat \<lfloor>(of_int timeout_seconds - (now w - start_time)) / poll_interval + 1\<rfloor>"
        arbitrary: w rule: less_induct)
  case less
  show ?case
  proof (cases "now w - start_time > of_int timeout_seconds")
    case True
    then show ?thesis by (subst mobile_poll.simps) simp
  next
    case False
    obtain r w1 where d: "detect_page_state depth f w = (r, w1)"
      by (cases "detect_page_state depth f w")
    show ?thesis
    proof (cases "state r = TWOFA_MOBILE \<or> state r = UNKNOWN")
      case False': False
      with False d show ?thesis by (subst mobile_poll.simps) auto
    next
      case True
      have "now w \<le> now w1" using evolves_detect'[OF d] by (simp add: evolves_def)
      then have "now w + poll_interval \<le> now (sleep poll_interval w1)"
        using assms by (simp add: sleep_now)
      from poll_measure_decreases[OF assms this False]
      have "\<exists>r' w'. mobile_poll depth f timeout_seconds poll_interval start_time
                 (sleep poll_interval w1) = Some (r', w')
              \<and> (r' = mobile_timeout_result timeout_seconds
                   \<or> (state r' \<noteq> TWOFA_MOBILE \<and> state r' \<noteq> UNKNOWN))"
        by (rule less)
      moreover have "mobile_poll depth f timeout_seconds poll_interval start_time w =
                 mobile_poll depth f timeout_seconds poll_interval start_time
                   (sleep poll_interval w1)"
        using False d True by (subst mobile_poll.simps) auto
      ultimately show ?thesis by simp
    qed
  qed
qed

section \<open>The registry\<close>

lemma update_state_lookup:
  "sessions m sid = Some s \<Longrightarrow>
   \<exists>s'. get_session (update_state m sid st e u r tm t) sid = Some s' \<and> s_state s' = st"
  by (simp add: update_state_def get_session_def Let_def split: option.splits)

lemma update_state_sessions:
  "sessions m sid = Some s \<Longrightarrow> \<exists>s'. sessions (update_state m sid st e u r tm t) sid = Some s'"
  by (simp add: update_state_def Let_def split: option.splits)

lemma update_state_fetchers: "fetchers (update_state m sid st e u r tm t) = fetchers m"
  by (simp add: update_state_def Let_def split: option.splits)

lemma logged_in_outcome:
  assumes "sessions m sid = Some s" and "save_auth_state f (s_account session) w = ((saved, name), w2)"
  shows "\<exists>resp m' s'. logged_in m sid session f w = (Inr resp, m', w2)
           \<and> get_session m' sid = Some s' \<and> r_status resp = status_map (s_state s')
           \<and> s_state s' = (if saved then SUCCESS else ERROR)"
proof (cases saved)
  case True
  from update_state_lookup[OF assms(1), of SUCCESS None name None None "now w2"]
  show ?thesis using assms(2) True by (auto simp: logged_in_def LoginResponse_def)
next
  case False
  from update_state_lookup[OF assms(1), of ERROR "Some ''Failed to save auth state''" None None
         None "now w2"]
  show ?thesis using assms(2) False by (auto simp: logged_in_def LoginResponse_def)
qed

lemma close_handle_trace:
  "trace (close_handle h a w) = trace w @ (if h \<noteq> None then [a] else [])"
  by (simp add: close_handle_def perform_def split: option.splits)

lemma close_trace:
  "trace (snd (close f w)) =
     trace w @ (if f_page f \<noteq> None then [ClosePage] else [])
             @ (if f_context f \<noteq> None then [CloseContext] else [])
             @ (if f_browser f \<noteq> None then [CloseBrowser] else [])
             @ (if f_playwright f \<noteq> None then [StopPlaywright] else [])"
  by (simp add: close_def Let_def close_handle_trace)

lemma close_twice: "close (fst (close f w)) w' = (fst (close f w), w')"
  by (simp add: close_def close_handle_def Let_def)

section \<open>Evaluation of the fixtures\<close>

lemmas selector_defs = user_menu_def captcha_indicators_def mobile_indicators_def
  mobile_link_def security_key_btn_def otp_input_def sms_input_def otp_inputs_def
  error_selectors_def login_input_def password_input_def otp_selectors_def
  submit_button_def submit_button_2fa_def code_selectors_def

lemmas check_defs = checks_before_security_key_def checks_after_security_key_def
  orelse_def check_logged_in_def check_captcha_def check_mobile_url_def
  check_mobile_elements_def check_security_key_button_def check_authenticator_app_def
  check_2fa_page_content_def check_flash_error_def check_login_form_def unknown_state_def
  security_key_unsupported_def save_debug_screenshot_def perform_def cur_page_def
  try_body_def security_key_url_page_def
  PageStateResult_def detect_failed_def sleep_def

lemmas flow_defs = submit_credentials_def submit_2fa_code_def save_auth_state_def
  extract_username_async_def username_from_menu_def username_from_profile_def
  user_menu_img_def meta_user_login_def profile_link_def browser_not_started_def

lemma strip_msg: "strip ''Incorrect username or password.'' = ''Incorrect username or password.''"
  by (simp add: strip_def isspace_def)

lemma detect_error_page:
  "site w = (\<lambda>tr t. error_page) \<Longrightarrow> fails w = (\<lambda>tr t a. None) \<Longrightarrow>
   detect_page_state depth attached w =
     (\<lparr>state = LOGIN_ERROR, error_message = Some ''Incorrect username or password.'',
       twofa_method = None, verification_code = None\<rparr>,
      w\<lparr>trace := trace w @ [Screenshot ''login_error'']\<rparr>)"
  by (subst detect_page_state.simps)
     (simp add: check_defs selector_defs error_page_def blank_page_def attached_def lower_def
        strip_msg)

lemma submit_credentials_error_page:
  "submit_credentials 5 attached ''bob'' ''secret'' (static_world error_page) =
     (\<lparr>state = LOGIN_ERROR, error_message = Some ''Incorrect username or password.'',
       twofa_method = None, verification_code = None\<rparr>,
      (static_world error_page)
        \<lparr>trace := [WaitForSelector login_input 10000, Fill login_input ''bob'',
                   Fill password_input ''secret'', Click submit_button,
                   WaitForLoadState ''domcontentloaded'' 30000, Screenshot ''login_error''],
         now := 1/2\<rparr>)"
proof -
  have "perform_all [WaitForSelector login_input 10000, Fill login_input ''bob'',
                   Fill password_input ''secret'', Click submit_button,
                   WaitForLoadState ''domcontentloaded'' 30000] (static_world error_page)
        = (Inr (), (static_world error_page)
             \<lparr>trace := [WaitForSelector login_input 10000, Fill login_input ''bob'',
                   Fill password_input ''secret'', Click submit_button,
                   WaitForLoadState ''domcontentloaded'' 30000]\<rparr>)"
    by (simp add: perform_def static_world_def)
  then show ?thesis
    by (simp add: submit_credentials_def attached_def[symmetric] detect_error_page sleep_def
          static_world_def)
       (simp add: attached_def)
qed

lemma storage_fails_classified:
  "submit_2fa_code 5 attached ''123456'' storage_fails_world =
     (\<lparr>state = LOGGED_IN, error_message = None, twofa_method = None, verification_code = None\<rparr>,
      storage_fails_world
        \<lparr>trace := [Fill (hd otp_selectors) ''123456'', Click submit_button_2fa,
                   WaitForLoadState ''domcontentloaded'' 30000],
         now := 1/2\<rparr>)"
  by (simp add: submit_2fa_code_def storage_fails_world_def attached_def otp_page_def
        logged_in_page_def blank_page_def cur_page_def perform_def sleep_def
        detect_page_state.simps[of 5] try_body_def checks_before_security_key_def orelse_def
        check_logged_in_def PageStateResult_def otp_selectors_def)

lemma storage_fails_save:
  "fst (save_auth_state attached ''acme''
     (storage_fails_world
        \<lparr>trace := [Fill (hd otp_selectors) ''123456'', Click submit_button_2fa,
                   WaitForLoadState ''domcontentloaded'' 30000],
         now := 1/2\<rparr>)) = (False, None)"
  by (simp add: flow_defs storage_fails_world_def attached_def otp_page_def
        logged_in_page_def blank_page_def cur_page_def perform_def sleep_def orelse_def
        selector_defs)

section \<open>The claims\<close>

text \<open>
  C1. The user menu button is checked first: on every page on which it is present,
  \<open>detect_page_state\<close> returns \<open>LOGGED_IN\<close>, whatever else the page shows. The instance
  below is a page with the user menu and a flash error with a text.
\<close>

theorem logged_in_indicator_wins:
  assumes "f_page f \<noteq> None" and "count (cur_page w) user_menu = Inr n" and "n > 0"
  shows "detect_page_state depth f w =
           (\<lparr>state = LOGGED_IN, error_message = None, twofa_method = None,
             verification_code = None\<rparr>, w)"
  using assms
  by (subst detect_page_state.simps)
     (simp add: try_body_def checks_before_security_key_def orelse_def check_logged_in_def
        PageStateResult_def)

theorem logged_in_indicator_wins_witness:
  "f_page attached \<noteq> None
   \<and> count (cur_page (static_world logged_in_with_banner)) user_menu = Inr 1
   \<and> count (cur_page (static_world logged_in_with_banner)) ''.flash-error'' = Inr 1
   \<and> text_content (cur_page (static_world logged_in_with_banner)) ''.flash-error''
       = Inr (Some ''Incorrect username or password.'')
   \<and> detect_page_state 5 attached (static_world logged_in_with_banner) =
           (\<lparr>state = LOGGED_IN, error_message = None, twofa_method = None,
             verification_code = None\<rparr>, static_world logged_in_with_banner)"
  using logged_in_indicator_wins [of attached "static_world logged_in_with_banner" 1 5]
  by (simp add: attached_def static_world_def logged_in_with_banner_def cur_page_def
        blank_page_def user_menu_def)

text \<open>
  C2. For a session in \<open>INITIALIZED\<close>, the handler of the credentials stores the state
  that the table gives for the classification: \<open>LOGGED_IN\<close> to \<open>SUCCESS\<close> when the
  authentication state was saved and to \<open>ERROR\<close> when it was not, the two code challenges
  to \<open>WAITING_2FA\<close>, the mobile challenge to \<open>WAITING_MOBILE\<close>, the CAPTCHA to the CAPTCHA
  state, and the security key, the login error and the unknown page to \<open>ERROR\<close>. The
  status of the response is the one of the stored state.
\<close>

theorem credentials_transition_table:
  assumes "get_session m sid = Some session" and "s_state session = INITIALIZED"
      and "get_fetcher m sid = Some f"
      and "submit_credentials depth f username password w = (result, w1)"
      and "save_auth_state f (s_account session) w1 = ((saved, name), w2)"
  shows "\<exists>resp m' w' session'.
           submit_credentials_route depth sid username password m w = (Inr resp, m', w')
         \<and> get_session m' sid = Some session'
         \<and> r_status resp = status_map (s_state session')
         \<and> s_state session' =
             (case state result of
                LOGGED_IN \<Rightarrow> if saved then SUCCESS else ERROR
              | TWOFA_APP \<Rightarrow> WAITING_2FA
              | TWOFA_SMS \<Rightarrow> WAITING_2FA
              | TWOFA_MOBILE \<Rightarrow> WAITING_MOBILE
              | CAPTCHA \<Rightarrow> CAPTCHA_STATE
              | TWOFA_SECURITY_KEY \<Rightarrow> ERROR
              | LOGIN_ERROR \<Rightarrow> ERROR
              | UNKNOWN \<Rightarrow> ERROR
              | LOGIN_FORM \<Rightarrow> ERROR)"
proof -
  from assms(1) have s: "sessions m sid = Some session" by (simp add: get_session_def)
  define m1 where "m1 = update_state m sid SUBMITTING_CREDENTIALS None None None None (now w)"
  from update_state_sessions[OF s] obtain s1 where s1: "sessions m1 sid = Some s1"
    unfolding m1_def by blast
  have route: "submit_credentials_route depth sid username password m w =
     (if state result = LOGGED_IN then logged_in m1 sid session f w1
      else if state result = TWOFA_MOBILE then
        (Inr ((LoginResponse sid ''waiting_mobile'')
                \<lparr>r_twofa_method := Some ''mobile'',
                 r_verification_code := verification_code result,
                 r_message := Some ''Approve the login request on your GitHub Mobile app''\<rparr>),
         update_state m1 sid WAITING_MOBILE None None (Some True) (Some ''mobile'') (now w1), w1)
      else if state result = TWOFA_APP \<or> state result = TWOFA_SMS then
        (Inr ((LoginResponse sid ''waiting_2fa'')
                \<lparr>r_twofa_method := twofa_method result,
                 r_message := Some ''Enter your 2FA code''\<rparr>),
         update_state m1 sid WAITING_2FA None None (Some True) (twofa_method result) (now w1), w1)
      else if state result = TWOFA_SECURITY_KEY then
        (Inr ((LoginResponse sid ''error'')
                \<lparr>r_error := Some (or_else (error_message result)
                   ''Security key 2FA not supported. Please configure authenticator app.'')\<rparr>),
         update_state m1 sid ERROR (error_message result) None None None (now w1), w1)
      else if state result = CAPTCHA then
        (Inr ((LoginResponse sid ''captcha'')
                \<lparr>r_error := Some (or_else (error_message result)
                   ''CAPTCHA required. Use --headed-login flag.'')\<rparr>),
         update_state m1 sid CAPTCHA_STATE (error_message result) None None None (now w1), w1)
      else if state result = LOGIN_ERROR then
        (Inr ((LoginResponse sid ''error'')
                \<lparr>r_error := Some (or_else (error_message result) ''Login failed'')\<rparr>),
         update_state m1 sid ERROR (error_message result) None None None (now w1), w1)
      else
        (Inr ((LoginResponse sid ''error'')
                \<lparr>r_error := Some (or_else (error_message result)
                   ''Unknown page state after credentials'')\<rparr>),
         update_state m1 sid ERROR
           (Some (or_else (error_message result) ''Unknown page state'')) None None None
           (now w1), w1))"
    using assms(1-4) by (simp add: submit_credentials_route_def m1_def)
  show ?thesis
  proof (cases "state result")
    case LOGGED_IN
    with route logged_in_outcome[OF s1 assms(5)] show ?thesis by auto
  next
    case TWOFA_MOBILE
    with route update_state_lookup[OF s1, of WAITING_MOBILE None None "Some True"
           "Some ''mobile''" "now w1"]
    show ?thesis by (auto simp: LoginResponse_def)
  next
    case TWOFA_APP
    with route update_state_lookup[OF s1, of WAITING_2FA None None "Some True"
           "twofa_method result" "now w1"]
    show ?thesis by (auto simp: LoginResponse_def)
  next
    case TWOFA_SMS
    with route update_state_lookup[OF s1, of WAITING_2FA None None "Some True"
           "twofa_method result" "now w1"]
    show ?thesis by (auto simp: LoginResponse_def)
  next
    case TWOFA_SECURITY_KEY
    with route update_state_lookup[OF s1, of ERROR "error_message result" None None None "now w1"]
    show ?thesis by (auto simp: LoginResponse_def)
  next
    case CAPTCHA
    with route update_state_lookup[OF s1, of CAPTCHA_STATE "error_message result" None None None
           "now w1"]
    show ?thesis by (auto simp: LoginResponse_def)
  next
    case LOGIN_ERROR
    with route update_state_lookup[OF s1, of ERROR "error_message result" None None None "now w1"]
    show ?thesis by (auto simp: LoginResponse_def)
  next
    case UNKNOWN
    with route update_state_lookup[OF s1, of ERROR
           "Some (or_else (error_message result) ''Unknown page state'')" None None None "now w1"]
    show ?thesis by (auto simp: LoginResponse_def)
  next
    case LOGIN_FORM
    with route update_state_lookup[OF s1, of ERROR
           "Some (or_else (error_message result) ''Unknown page state'')" None None None "now w1"]
    show ?thesis by (auto simp: LoginResponse_def)
  qed
qed

theorem credentials_transition_table_witness:
  "\<exists>resp m' w' session'.
      submit_credentials_route 5 ''s1'' ''bob'' ''secret'' (one_session INITIALIZED)
        (static_world error_page) = (Inr resp, m', w')
    \<and> get_session m' ''s1'' = Some session'
    \<and> r_status resp = ''error''
    \<and> s_state session' = ERROR"
proof -
  obtain saved name w2 where sv: "save_auth_state attached ''acme''
      ((static_world error_page)
        \<lparr>trace := [WaitForSelector login_input 10000, Fill login_input ''bob'',
                   Fill password_input ''secret'', Click submit_button,
                   WaitForLoadState ''domcontentloaded'' 30000, Screenshot ''login_error''],
         now := 1/2\<rparr>) = ((saved, name), w2)"
    by (metis prod.collapse)
  have a: "get_session (one_session INITIALIZED) ''s1'' =
             Some \<lparr>s_session_id = ''s1'', s_account = ''acme'', s_state = INITIALIZED,
                   s_created_at = 0, s_updated_at = 0, s_error_message = None,
                   s_username = None, s_requires_2fa = False, s_twofa_method = None\<rparr>"
    by (simp add: one_session_def get_session_def)
  have b: "get_fetcher (one_session INITIALIZED) ''s1'' = Some attached"
    by (simp add: one_session_def get_fetcher_def)
  from credentials_transition_table [OF a _ b submit_credentials_error_page, of saved name w2]
       sv
  show ?thesis by auto
qed

text \<open>
  C3. An operation on a session that is not in the state the operation requires
  (\<open>INITIALIZED\<close> for the credentials, \<open>WAITING_2FA\<close> for the code, \<open>WAITING_MOBILE\<close> for
  the mobile wait) is rejected with the client error 400 "Invalid session state", and the
  registry and the world are left as they were. The fourth operation, the cancellation,
  requires no state.
\<close>

theorem wrong_state_rejected_unchanged:
  assumes "get_session m sid = Some session"
  shows "(s_state session \<noteq> INITIALIZED \<longrightarrow>
            submit_credentials_route depth sid username password m w =
              (Inl (HTTPException 400 (InvalidSessionState ''credentials'' (s_state session))),
               m, w))
       \<and> (s_state session \<noteq> WAITING_2FA \<longrightarrow>
            submit_2fa depth sid code m w =
              (Inl (HTTPException 400 (InvalidSessionState ''2FA'' (s_state session))), m, w))
       \<and> (s_state session \<noteq> WAITING_MOBILE \<longrightarrow>
            wait_for_mobile_2fa depth sid timeout_seconds m w =
              Some (Inl (HTTPException 400
                           (InvalidSessionState ''mobile wait'' (s_state session))), m, w))"
  using assms
  by (simp add: submit_credentials_route_def submit_2fa_def wait_for_mobile_2fa_def)

theorem wrong_state_rejected_unchanged_witness:
  "submit_credentials_route 5 ''s1'' ''bob'' ''secret'' (one_session ERROR)
       (static_world error_page) =
     (Inl (HTTPException 400 (InvalidSessionState ''credentials'' ERROR)),
      one_session ERROR, static_world error_page)
   \<and> submit_2fa 5 ''s1'' ''123456'' (one_session ERROR) (static_world error_page) =
     (Inl (HTTPException 400 (InvalidSessionState ''2FA'' ERROR)),
      one_session ERROR, static_world error_page)
   \<and> wait_for_mobile_2fa 5 ''s1'' 120 (one_session ERROR) (static_world error_page) =
     Some (Inl (HTTPException 400 (InvalidSessionState ''mobile wait'' ERROR)),
           one_session ERROR, static_world error_page)"
  using wrong_state_rejected_unchanged [of "one_session ERROR" "''s1''"
          "the (get_session (one_session ERROR) ''s1'')" 5 "''bob''" "''secret''"
          "static_world error_page" "''123456''" 120]
  by (simp add: one_session_def get_session_def)

text \<open>
  C4, the claim as stated fails: the first cancellation of a session succeeds, the second
  one on the same id is answered with 404 "Session not found or expired".
\<close>

theorem second_cancel_not_found:
  "(case cancel_login ''s1'' (one_session WAITING_MOBILE) (static_world blank_page) of
      (r, m', w') \<Rightarrow> (isl r, fst (cancel_login ''s1'' m' w')))
   = (False, Inl (HTTPException 404 SessionNotFound))"
  by (simp add: cancel_login_def one_session_def get_session_def get_fetcher_def
        remove_session_def LoginResponse_def Let_def)

text \<open>
  C4, as amended. The cancellation of a registered session succeeds, releases the
  resource and removes the session: the world after it is the one \<open>LoginFetcher.close\<close>
  leaves on the fetcher of the session (each handle that is attached is closed, in the
  order page, context, browser, driver, and every handle is \<open>None\<close> afterwards), and the
  session and its fetcher have left the registry. From then on every operation on that
  id, a second cancellation included, is answered with 404 "Session not found or
  expired". Closing a fetcher that is closed already does nothing.
\<close>

theorem cancel_removes_session:
  assumes "get_session m sid = Some session"
  shows "\<exists>resp m' w'.
           cancel_login sid m w = (Inr resp, m', w')
         \<and> r_message resp = Some ''Session cancelled''
         \<and> w' = (case get_fetcher m sid of None \<Rightarrow> w | Some f \<Rightarrow> snd (close f w))
         \<and> get_session m' sid = None \<and> get_fetcher m' sid = None
         \<and> get_login_status sid m' = Inl (HTTPException 404 SessionNotFound)
         \<and> submit_credentials_route depth sid username password m' w'
             = (Inl (HTTPException 404 SessionNotFound), m', w')
         \<and> submit_2fa depth sid code m' w' = (Inl (HTTPException 404 SessionNotFound), m', w')
         \<and> wait_for_mobile_2fa depth sid timeout_seconds m' w'
             = Some (Inl (HTTPException 404 SessionNotFound), m', w')
         \<and> cancel_login sid m' w' = (Inl (HTTPException 404 SessionNotFound), m', w')
         \<and> (\<forall>f w0. fst (close f w0) =
                \<lparr>f_playwright = None, f_browser = None, f_context = None, f_page = None\<rparr>
              \<and> trace (snd (close f w0)) =
                  trace w0 @ (if f_page f \<noteq> None then [ClosePage] else [])
                           @ (if f_context f \<noteq> None then [CloseContext] else [])
                           @ (if f_browser f \<noteq> None then [CloseBrowser] else [])
                           @ (if f_playwright f \<noteq> None then [StopPlaywright] else []))
         \<and> (\<forall>f w0 w1. close (fst (close f w0)) w1 = (fst (close f w0), w1))"
proof -
  have rel: "\<forall>f w0. fst (close f w0) =
                \<lparr>f_playwright = None, f_browser = None, f_context = None, f_page = None\<rparr>
              \<and> trace (snd (close f w0)) =
                  trace w0 @ (if f_page f \<noteq> None then [ClosePage] else [])
                           @ (if f_context f \<noteq> None then [CloseContext] else [])
                           @ (if f_browser f \<noteq> None then [CloseBrowser] else [])
                           @ (if f_playwright f \<noteq> None then [StopPlaywright] else [])"
  proof (intro allI conjI)
    fix f w0
    show "fst (close f w0) =
            \<lparr>f_playwright = None, f_browser = None, f_context = None, f_page = None\<rparr>"
      by (simp add: close_def Let_def)
    show "trace (snd (close f w0)) =
            trace w0 @ (if f_page f \<noteq> None then [ClosePage] else [])
                     @ (if f_context f \<noteq> None then [CloseContext] else [])
                     @ (if f_browser f \<noteq> None then [CloseBrowser] else [])
                     @ (if f_playwright f \<noteq> None then [StopPlaywright] else [])"
      by (rule close_trace)
  qed
  have main: "\<exists>resp m' w'.
           cancel_login sid m w = (Inr resp, m', w')
         \<and> r_message resp = Some ''Session cancelled''
         \<and> w' = (case get_fetcher m sid of None \<Rightarrow> w | Some f \<Rightarrow> snd (close f w))
         \<and> get_session m' sid = None \<and> get_fetcher m' sid = None
         \<and> get_login_status sid m' = Inl (HTTPException 404 SessionNotFound)
         \<and> submit_credentials_route depth sid username password m' w'
             = (Inl (HTTPException 404 SessionNotFound), m', w')
         \<and> submit_2fa depth sid code m' w' = (Inl (HTTPException 404 SessionNotFound), m', w')
         \<and> wait_for_mobile_2fa depth sid timeout_seconds m' w'
             = Some (Inl (HTTPException 404 SessionNotFound), m', w')
         \<and> cancel_login sid m' w' = (Inl (HTTPException 404 SessionNotFound), m', w')"
    using assms
    by (simp add: cancel_login_def get_session_def get_fetcher_def remove_session_def
          get_login_status_def submit_credentials_route_def submit_2fa_def
          wait_for_mobile_2fa_def LoginResponse_def Let_def)
  from main rel close_twice show ?thesis by blast
qed

theorem cancel_removes_session_witness:
  "\<exists>resp m' w'.
      cancel_login ''s1'' (one_session WAITING_MOBILE) (static_world blank_page)
        = (Inr resp, m', w')
    \<and> trace w' = [ClosePage, CloseContext, CloseBrowser, StopPlaywright]
    \<and> get_session m' ''s1'' = None
    \<and> cancel_login ''s1'' m' w' = (Inl (HTTPException 404 SessionNotFound), m', w')"
proof -
  have a: "get_session (one_session WAITING_MOBILE) ''s1'' =
             Some \<lparr>s_session_id = ''s1'', s_account = ''acme'', s_state = WAITING_MOBILE,
                   s_created_at = 0, s_updated_at = 0, s_error_message = None,
                   s_username = None, s_requires_2fa = False, s_twofa_method = None\<rparr>"
    by (simp add: one_session_def get_session_def)
  have b: "get_fetcher (one_session WAITING_MOBILE) ''s1'' = Some attached"
    by (simp add: one_session_def get_fetcher_def)
  from cancel_removes_session [OF a, of "static_world blank_page" 5 "''bob''" "''secret''"
         "''123456''" 120]
  obtain resp m' w' where
    c: "cancel_login ''s1'' (one_session WAITING_MOBILE) (static_world blank_page)
          = (Inr resp, m', w')"
    and w: "w' = (case get_fetcher (one_session WAITING_MOBILE) ''s1'' of
                    None \<Rightarrow> static_world blank_page
                  | Some f \<Rightarrow> snd (close f (static_world blank_page)))"
    and g: "get_session m' ''s1'' = None"
    and n: "cancel_login ''s1'' m' w' = (Inl (HTTPException 404 SessionNotFound), m', w')"
    and t: "\<forall>f w0. fst (close f w0) =
                \<lparr>f_playwright = None, f_browser = None, f_context = None, f_page = None\<rparr>
              \<and> trace (snd (close f w0)) =
                  trace w0 @ (if f_page f \<noteq> None then [ClosePage] else [])
                           @ (if f_context f \<noteq> None then [CloseContext] else [])
                           @ (if f_browser f \<noteq> None then [CloseBrowser] else [])
                           @ (if f_playwright f \<noteq> None then [StopPlaywright] else [])"
    by blast
  from w b t have "trace w' = [ClosePage, CloseContext, CloseBrowser, StopPlaywright]"
    by (simp add: attached_def static_world_def)
  with c g n show ?thesis by blast
qed

text \<open>
  C5, the claim as stated fails: the wait for the login input times out on a page that
  shows the user menu; the operation returns \<open>UNKNOWN\<close> with the text of the timeout, while
  the classification of the page that is present is \<open>LOGGED_IN\<close>.
\<close>

theorem wait_timeout_not_reclassified:
  "submit_credentials 5 attached ''bob'' ''secret'' timeout_world =
     (\<lparr>state = UNKNOWN,
       error_message = Some ''Error submitting credentials: Timeout 10000ms exceeded.'',
       twofa_method = None, verification_code = None\<rparr>,
      timeout_world\<lparr>trace := [WaitForSelector login_input 10000]\<rparr>)
   \<and> fst (detect_page_state 5 attached
            (timeout_world\<lparr>trace := [WaitForSelector login_input 10000]\<rparr>)) =
       \<lparr>state = LOGGED_IN, error_message = None, twofa_method = None, verification_code = None\<rparr>"
  by (simp add: submit_credentials_def timeout_world_def attached_def perform_def
        PageStateResult_def detect_page_state.simps[of 5] try_body_def
        checks_before_security_key_def orelse_def check_logged_in_def cur_page_def
        logged_in_page_def blank_page_def)

text \<open>
  C5, as amended. When the wait for the login input (10 seconds) or the wait for the
  load state after the click (30 seconds) raises, \<open>submit_credentials\<close> raises nothing
  itself: it returns \<open>UNKNOWN\<close> with the message "Error submitting credentials: " followed
  by the text of the failure, and does not classify the page. It classifies the page,
  after the settle delay, when all five calls of the driver have returned.
\<close>

theorem wait_timeout_gives_unknown:
  assumes "f_page f \<noteq> None"
  shows "(fails w (trace w) (now w) (WaitForSelector login_input 10000) = Some e \<longrightarrow>
            submit_credentials depth f username password w =
              (\<lparr>state = UNKNOWN, error_message = Some (''Error submitting credentials: '' @ e),
                twofa_method = None, verification_code = None\<rparr>,
               w\<lparr>trace := trace w @ [WaitForSelector login_input 10000]\<rparr>))
       \<and> (perform_all [WaitForSelector login_input 10000, Fill login_input username,
                        Fill password_input password, Click submit_button] w = (Inr (), w4)
            \<and> fails w4 (trace w4) (now w4) (WaitForLoadState ''domcontentloaded'' 30000) = Some e
            \<longrightarrow> submit_credentials depth f username password w =
              (\<lparr>state = UNKNOWN, error_message = Some (''Error submitting credentials: '' @ e),
                twofa_method = None, verification_code = None\<rparr>,
               w4\<lparr>trace := trace w4 @ [WaitForLoadState ''domcontentloaded'' 30000]\<rparr>))
       \<and> (perform_all [WaitForSelector login_input 10000, Fill login_input username,
                        Fill password_input password, Click submit_button,
                        WaitForLoadState ''domcontentloaded'' 30000] w = (Inr (), w5)
            \<longrightarrow> submit_credentials depth f username password w =
                  detect_page_state depth f (sleep (1/2) w5))"
proof -
  from assms obtain h where page: "f_page f = Some h" by auto
  have a: "fails w (trace w) (now w) (WaitForSelector login_input 10000) = Some e \<longrightarrow>
            submit_credentials depth f username password w =
              (\<lparr>state = UNKNOWN, error_message = Some (''Error submitting credentials: '' @ e),
                twofa_method = None, verification_code = None\<rparr>,
               w\<lparr>trace := trace w @ [WaitForSelector login_input 10000]\<rparr>)"
    by (simp add: submit_credentials_def page perform_def PageStateResult_def)
  have split5: "[WaitForSelector login_input 10000, Fill login_input username,
                 Fill password_input password, Click submit_button,
                 WaitForLoadState ''domcontentloaded'' 30000]
              = [WaitForSelector login_input 10000, Fill login_input username,
                 Fill password_input password, Click submit_button]
                @ [WaitForLoadState ''domcontentloaded'' 30000]" by simp
  have b: "perform_all [WaitForSelector login_input 10000, Fill login_input username,
                        Fill password_input password, Click submit_button] w = (Inr (), w4)
            \<and> fails w4 (trace w4) (now w4) (WaitForLoadState ''domcontentloaded'' 30000) = Some e
            \<longrightarrow> submit_credentials depth f username password w =
              (\<lparr>state = UNKNOWN, error_message = Some (''Error submitting credentials: '' @ e),
                twofa_method = None, verification_code = None\<rparr>,
               w4\<lparr>trace := trace w4 @ [WaitForLoadState ''domcontentloaded'' 30000]\<rparr>)"
    by (simp only: submit_credentials_def split5 perform_all_append)
       (simp add: page perform_def PageStateResult_def)
  have c: "perform_all [WaitForSelector login_input 10000, Fill login_input username,
                        Fill password_input password, Click submit_button,
                        WaitForLoadState ''domcontentloaded'' 30000] w = (Inr (), w5)
            \<longrightarrow> submit_credentials depth f username password w =
                  detect_page_state depth f (sleep (1/2) w5)"
    by (simp add: submit_credentials_def page)
  from a b c show ?thesis by blast
qed

theorem wait_timeout_gives_unknown_witness:
  "submit_credentials 5 attached ''bob'' ''secret'' timeout_world =
     (\<lparr>state = UNKNOWN,
       error_message = Some ''Error submitting credentials: Timeout 10000ms exceeded.'',
       twofa_method = None, verification_code = None\<rparr>,
      timeout_world\<lparr>trace := [WaitForSelector login_input 10000]\<rparr>)"
proof -
  have h: "f_page attached \<noteq> None" by (simp add: attached_def)
  have e: "fails timeout_world (trace timeout_world) (now timeout_world)
             (WaitForSelector login_input 10000) = Some ''Timeout 10000ms exceeded.''"
    by (simp add: timeout_world_def)
  from wait_timeout_gives_unknown[OF h, of timeout_world "''Timeout 10000ms exceeded.''" 5
         "''bob''" "''secret''"] e
  show ?thesis by (simp add: timeout_world_def)
qed

text \<open>
  C6, the claim as stated fails: the page after the code is classified \<open>LOGGED_IN\<close>, the
  write of the storage state raises, and the session ends in \<open>ERROR\<close>, not in \<open>SUCCESS\<close>.
\<close>

theorem twofa_logged_in_not_success:
  "state (fst (submit_2fa_code 5 attached ''123456'' storage_fails_world)) = LOGGED_IN
   \<and> map_option s_state (get_session (one_session WAITING_2FA) ''s1'') = Some WAITING_2FA
   \<and> (case submit_2fa 5 ''s1'' ''123456'' (one_session WAITING_2FA) storage_fails_world of
        (r, m', w') \<Rightarrow> map_option s_state (get_session m' ''s1'')) = Some ERROR"
proof -
  obtain w2 where sv: "save_auth_state attached ''acme''
     (storage_fails_world
        \<lparr>trace := [Fill (hd otp_selectors) ''123456'', Click submit_button_2fa,
                   WaitForLoadState ''domcontentloaded'' 30000],
         now := 1/2\<rparr>) = ((False, None), w2)"
    using storage_fails_save by (metis prod.collapse)
  show ?thesis
    by (simp add: storage_fails_classified submit_2fa_def sv logged_in_def one_session_def
          get_session_def get_fetcher_def update_state_def Let_def)
qed

text \<open>
  C6, as amended. For a session in \<open>WAITING_2FA\<close>, the handler of the code stores
  \<open>SUCCESS\<close> for \<open>LOGGED_IN\<close> when the authentication state was saved and \<open>ERROR\<close> when it
  was not, \<open>WAITING_2FA\<close> for \<open>LOGIN_ERROR\<close>, and \<open>ERROR\<close> for every other result. After
  \<open>LOGIN_ERROR\<close> the session is the one before the call but for the time of the update,
  and it keeps its fetcher: nothing counts the attempts, and the next code is accepted.
\<close>

theorem twofa_transition_table:
  assumes "get_session m sid = Some session" and "s_state session = WAITING_2FA"
      and "get_fetcher m sid = Some f"
      and "submit_2fa_code depth f code w = (result, w1)"
      and "save_auth_state f (s_account session) w1 = ((saved, name), w2)"
  shows "\<exists>resp m' w' session'.
           submit_2fa depth sid code m w = (Inr resp, m', w')
         \<and> get_session m' sid = Some session'
         \<and> r_status resp = status_map (s_state session')
         \<and> s_state session' =
             (if state result = LOGGED_IN then (if saved then SUCCESS else ERROR)
              else if state result = LOGIN_ERROR then WAITING_2FA
              else ERROR)
         \<and> (state result = LOGIN_ERROR \<longrightarrow>
              session' = session\<lparr>s_updated_at := now w1\<rparr> \<and> get_fetcher m' sid = Some f)"
proof -
  from assms(1) have s: "sessions m sid = Some session" by (simp add: get_session_def)
  define m1 where "m1 = update_state m sid SUBMITTING_2FA None None None None (now w)"
  from update_state_sessions[OF s] obtain s1 where s1: "sessions m1 sid = Some s1"
    unfolding m1_def by blast
  have route: "submit_2fa depth sid code m w =
     (if state result = LOGGED_IN then logged_in m1 sid session f w1
      else if state result = LOGIN_ERROR then
        (Inr ((LoginResponse sid ''waiting_2fa'')
                \<lparr>r_error := Some (or_else (error_message result)
                   ''Invalid 2FA code, please try again'')\<rparr>),
         update_state m1 sid WAITING_2FA None None None None (now w1), w1)
      else
        (Inr ((LoginResponse sid ''error'')
                \<lparr>r_error := Some (or_else (error_message result)
                   ''Unknown state after 2FA submission'')\<rparr>),
         update_state m1 sid ERROR
           (Some (or_else (error_message result) ''Unknown state after 2FA'')) None None None
           (now w1), w1))"
    using assms(1-4) by (simp add: submit_2fa_def m1_def)
  consider (ok) "state result = LOGGED_IN" | (retry) "state result = LOGIN_ERROR"
    | (other) "state result \<noteq> LOGGED_IN" "state result \<noteq> LOGIN_ERROR" by blast
  then show ?thesis
  proof cases
    case ok
    with route logged_in_outcome[OF s1 assms(5)] show ?thesis by auto
  next
    case retry
    have "get_session (update_state m1 sid WAITING_2FA None None None None (now w1)) sid
            = Some (session\<lparr>s_updated_at := now w1\<rparr>)"
      using s assms(2) by (simp add: m1_def update_state_def get_session_def)
    moreover have "get_fetcher (update_state m1 sid WAITING_2FA None None None None (now w1)) sid
            = Some f"
      using assms(3) by (simp add: m1_def get_fetcher_def update_state_fetchers)
    ultimately show ?thesis using route retry assms(2) by (simp add: LoginResponse_def)
  next
    case other
    with route update_state_lookup[OF s1, of ERROR
           "Some (or_else (error_message result) ''Unknown state after 2FA'')" None None None
           "now w1"]
    show ?thesis by (auto simp: LoginResponse_def)
  qed
qed

theorem twofa_transition_table_witness:
  "\<exists>resp m' w' session'.
      submit_2fa 5 ''s1'' ''123456'' (one_session WAITING_2FA) storage_fails_world
        = (Inr resp, m', w')
    \<and> get_session m' ''s1'' = Some session'
    \<and> r_status resp = ''error''
    \<and> s_state session' = ERROR"
proof -
  obtain w2 where sv: "save_auth_state attached ''acme''
     (storage_fails_world
        \<lparr>trace := [Fill (hd otp_selectors) ''123456'', Click submit_button_2fa,
                   WaitForLoadState ''domcontentloaded'' 30000],
         now := 1/2\<rparr>) = ((False, None), w2)"
    using storage_fails_save by (metis prod.collapse)
  have a: "get_session (one_session WAITING_2FA) ''s1'' =
             Some \<lparr>s_session_id = ''s1'', s_account = ''acme'', s_state = WAITING_2FA,
                   s_created_at = 0, s_updated_at = 0, s_error_message = None,
                   s_username = None, s_requires_2fa = False, s_twofa_method = None\<rparr>"
    by (simp add: one_session_def get_session_def)
  have b: "get_fetcher (one_session WAITING_2FA) ''s1'' = Some attached"
    by (simp add: one_session_def get_fetcher_def)
  from twofa_transition_table [OF a _ b storage_fails_classified, of False None w2] sv
  show ?thesis by auto
qed

text \<open>
  C7. \<open>wait_for_mobile_approval\<close> compares the elapsed time with the timeout before every
  classification. Once the elapsed time exceeds the timeout it returns \<open>TWOFA_MOBILE\<close> with
  the message "Mobile approval timed out after \<open>n\<close> seconds. Please try again.". Otherwise
  it classifies: \<open>TWOFA_MOBILE\<close> and \<open>UNKNOWN\<close> make it sleep for the poll interval and go
  round again, every other state (\<open>LOGGED_IN\<close> and \<open>LOGIN_ERROR\<close> among them) is returned
  at once. For every timeout and every positive poll interval the call returns, with the
  timeout result or with a state other than \<open>TWOFA_MOBILE\<close> and \<open>UNKNOWN\<close>.
\<close>

theorem mobile_wait_bounded:
  assumes "0 < poll_interval"
  shows "(\<exists>r w'. wait_for_mobile_approval depth f timeout_seconds poll_interval w = Some (r, w')
            \<and> (f_page f = None \<or> r = mobile_timeout_result timeout_seconds
                 \<or> (state r \<noteq> TWOFA_MOBILE \<and> state r \<noteq> UNKNOWN)))
       \<and> (f_page f \<noteq> None \<longrightarrow>
            wait_for_mobile_approval depth f timeout_seconds poll_interval w =
              mobile_poll depth f timeout_seconds poll_interval (now w) w)
       \<and> (now w1 - start_time > of_int timeout_seconds \<longrightarrow>
            mobile_poll depth f timeout_seconds poll_interval start_time w1 =
              Some (\<lparr>state = TWOFA_MOBILE,
                     error_message = Some (''Mobile approval timed out after ''
                       @ str_int timeout_seconds @ '' seconds. Please try again.''),
                     twofa_method = Some ''mobile'', verification_code = None\<rparr>,
                    save_debug_screenshot f ''mobile_2fa_timeout'' w1))
       \<and> (\<not> now w1 - start_time > of_int timeout_seconds
            \<and> detect_page_state depth f w1 = (r1, w2)
            \<longrightarrow> mobile_poll depth f timeout_seconds poll_interval start_time w1 =
                  (if state r1 = TWOFA_MOBILE \<or> state r1 = UNKNOWN
                   then mobile_poll depth f timeout_seconds poll_interval start_time
                          (sleep poll_interval w2)
                   else Some (r1, w2)))
       \<and> now (sleep poll_interval w2) = now w2 + poll_interval"
proof -
  have a: "\<exists>r w'. wait_for_mobile_approval depth f timeout_seconds poll_interval w = Some (r, w')
            \<and> (f_page f = None \<or> r = mobile_timeout_result timeout_seconds
                 \<or> (state r \<noteq> TWOFA_MOBILE \<and> state r \<noteq> UNKNOWN))"
    using mobile_poll_returns[OF assms, of depth f timeout_seconds "now w" w]
    by (auto simp: wait_for_mobile_approval_def)
  have b: "f_page f \<noteq> None \<longrightarrow>
            wait_for_mobile_approval depth f timeout_seconds poll_interval w =
              mobile_poll depth f timeout_seconds poll_interval (now w) w"
    by (simp add: wait_for_mobile_approval_def)
  have c: "now w1 - start_time > of_int timeout_seconds \<longrightarrow>
            mobile_poll depth f timeout_seconds poll_interval start_time w1 =
              Some (\<lparr>state = TWOFA_MOBILE,
                     error_message = Some (''Mobile approval timed out after ''
                       @ str_int timeout_seconds @ '' seconds. Please try again.''),
                     twofa_method = Some ''mobile'', verification_code = None\<rparr>,
                    save_debug_screenshot f ''mobile_2fa_timeout'' w1)"
    by (subst mobile_poll.simps) (simp add: mobile_timeout_result_def)
  have d: "\<not> now w1 - start_time > of_int timeout_seconds
            \<and> detect_page_state depth f w1 = (r1, w2)
            \<longrightarrow> mobile_poll depth f timeout_seconds poll_interval start_time w1 =
                  (if state r1 = TWOFA_MOBILE \<or> state r1 = UNKNOWN
                   then mobile_poll depth f timeout_seconds poll_interval start_time
                          (sleep poll_interval w2)
                   else Some (r1, w2))"
    by (subst mobile_poll.simps) auto
  from a b c d sleep_now[OF assms] show ?thesis by blast
qed

theorem mobile_wait_bounded_witness:
  "\<exists>r w'. wait_for_mobile_approval 5 attached 1 (1/2) (static_world mobile_page) = Some (r, w')"
proof -
  have "(0::rat) < 1/2" by simp
  from mobile_wait_bounded[OF this, of 5 attached 1 "static_world mobile_page"]
  show ?thesis by blast
qed



text \<open>
  C9, the claim as stated fails on the message: with no input for the code on the page the
  message is "Could not find 2FA input field".
\<close>

theorem missing_otp_input_message:
  "first_present (cur_page (static_world blank_page)) otp_selectors = Inr None
   \<and> error_message (fst (submit_2fa_code 5 attached ''123456'' (static_world blank_page)))
       = Some ''Could not find 2FA input field''
   \<and> error_message (fst (submit_2fa_code 5 attached ''123456'' (static_world blank_page)))
       \<noteq> Some ''no 2FA input field found''"
  by (simp add: submit_2fa_code_def attached_def static_world_def cur_page_def blank_page_def
        otp_selectors_def PageStateResult_def)

text \<open>
  C9, as amended. \<open>submit_2fa_code\<close> looks for the input of the code under four selectors,
  in the order app code by name, app code by id, SMS code, generic one-time code, and
  fills the first one that is present. When none is present it returns \<open>UNKNOWN\<close> with
  the message "Could not find 2FA input field" and leaves the world as it was: nothing is
  filled, clicked or submitted.
\<close>

theorem otp_input_search:
  assumes \<open>f_page f \<noteq> None\<close>
      and \<open>\<forall>s \<in> set otp_selectors. \<exists>n. count (cur_page w) s = Inr n\<close>
  shows \<open>otp_selectors =
           [''input[name="app_otp"]'', ''input[id="app_totp"]'', ''input[name="sms_otp"]'',
            ''input[type="text"][autocomplete="one-time-code"]'']
       \<and> (find (\<lambda>s. count (cur_page w) s \<noteq> Inr 0) otp_selectors = None \<longrightarrow>
            submit_2fa_code depth f code w =
              (\<lparr>state = UNKNOWN, error_message = Some ''Could not find 2FA input field'',
                twofa_method = None, verification_code = None\<rparr>, w))
       \<and> (find (\<lambda>s. count (cur_page w) s \<noteq> Inr 0) otp_selectors = Some sel \<longrightarrow>
            (\<exists>rest. trace (snd (submit_2fa_code depth f code w))
                      = trace w @ Fill sel code # rest))\<close>
proof -
  from assms(1) obtain h where page: "f_page f = Some h" by auto
  note fp = first_present_find[OF assms(2)]
  have a: "find (\<lambda>s. count (cur_page w) s \<noteq> Inr 0) otp_selectors = None \<longrightarrow>
            submit_2fa_code depth f code w =
              (\<lparr>state = UNKNOWN, error_message = Some ''Could not find 2FA input field'',
                twofa_method = None, verification_code = None\<rparr>, w)"
    by (simp add: submit_2fa_code_def page fp PageStateResult_def)
  have b: "find (\<lambda>s. count (cur_page w) s \<noteq> Inr 0) otp_selectors = Some sel \<longrightarrow>
            (\<exists>rest. trace (snd (submit_2fa_code depth f code w))
                      = trace w @ Fill sel code # rest)"
    using submit_2fa_code_trace[OF page, of w sel depth code] fp by simp
  from a b show ?thesis by (simp add: otp_selectors_def)
qed

theorem otp_input_search_witness:
  "\<exists>rest. trace (snd (submit_2fa_code 5 attached ''123456'' (static_world sms_page)))
            = Fill (otp_selectors ! 2) ''123456'' # rest"
proof -
  have h: "f_page attached \<noteq> None" by (simp add: attached_def)
  have c: "\<forall>s \<in> set otp_selectors. \<exists>n. count (cur_page (static_world sms_page)) s = Inr n"
    by (simp add: static_world_def cur_page_def sms_page_def blank_page_def)
  have f: "find (\<lambda>s. count (cur_page (static_world sms_page)) s \<noteq> Inr 0) otp_selectors
             = Some (otp_selectors ! 2)"
    by (simp add: static_world_def cur_page_def sms_page_def blank_page_def otp_selectors_def)
  from otp_input_search[OF h c, where sel = "otp_selectors ! 2" and depth = 5
         and code = "''123456''"] f
  show ?thesis by (simp add: static_world_def)
qed

text \<open>
  C10. With no page attached, the four public operations of the fetcher return an
  \<open>UNKNOWN\<close> result and raise nothing: \<open>detect_page_state\<close> without a message, the three
  others with the message "Browser not started". A fetcher that was never started and a
  fetcher that was closed have no page attached.
\<close>

theorem no_page_gives_unknown:
  assumes "f_page f = None"
  shows "detect_page_state depth f w =
           (\<lparr>state = UNKNOWN, error_message = None, twofa_method = None,
             verification_code = None\<rparr>, w)
       \<and> submit_credentials depth f username password w =
           (\<lparr>state = UNKNOWN, error_message = Some ''Browser not started'', twofa_method = None,
             verification_code = None\<rparr>, w)
       \<and> submit_2fa_code depth f code w =
           (\<lparr>state = UNKNOWN, error_message = Some ''Browser not started'', twofa_method = None,
             verification_code = None\<rparr>, w)
       \<and> wait_for_mobile_approval depth f timeout_seconds poll_interval w =
           Some (\<lparr>state = UNKNOWN, error_message = Some ''Browser not started'',
                  twofa_method = None, verification_code = None\<rparr>, w)
       \<and> f_page LoginFetcher = None
       \<and> f_page (fst (close g w0)) = None"
  using assms
  by (simp add: detect_page_state.simps submit_credentials_def submit_2fa_code_def
        wait_for_mobile_approval_def browser_not_started_def PageStateResult_def
        LoginFetcher_def close_def Let_def)

theorem no_page_gives_unknown_witness:
  "f_page (fst (close attached (static_world blank_page))) = None
   \<and> submit_2fa_code 5 (fst (close attached (static_world blank_page))) ''123456''
        (static_world blank_page) =
           (\<lparr>state = UNKNOWN, error_message = Some ''Browser not started'', twofa_method = None,
             verification_code = None\<rparr>, static_world blank_page)
   \<and> detect_page_state 5 (fst (close attached (static_world blank_page)))
        (static_world blank_page) =
           (\<lparr>state = UNKNOWN, error_message = None, twofa_method = None,
             verification_code = None\<rparr>, static_world blank_page)"
  using no_page_gives_unknown [of "fst (close attached (static_world blank_page))" 5
          "static_world blank_page" "''bob''" "''secret''" "''123456''" 120 2 attached
          "static_world blank_page"]
  by (simp add: close_def Let_def)

end
